(* ===== verification/Prelim.thy ===== *)
theory Prelim
  imports Main "HOL-Library.Sublist"
begin

text \<open>
  Shared vocabulary of the development. The program is JavaScript (Node/Express on the
  server, React in the browser); this theory fixes how its values are represented and
  models the three JavaScript string builtins the code relies on:
  \<^item> \<open>String.prototype.replace\<close> with a string pattern (first occurrence only), used by
    \<open>verifyToken\<close> in \<open>src/backend/index.js\<close> to strip the \<open>Bearer \<close> prefix;
  \<^item> \<open>String.prototype.split\<close> on a one-character separator, used by the JWT library
    to cut a token into its three parts;
  \<^item> the decimal rendering and parsing of natural numbers, the textual form that the
    model gives to numbers inside a token.
  MongoDB ObjectIds are modelled as natural numbers (\<open>oid\<close>), times as whole seconds
  since the epoch (\<open>seconds\<close>, the \<open>Math.floor(Date.now() / 1000)\<close> of jsonwebtoken).
\<close>

named_theorems store_simps "equations of the document-store operations"
named_theorems handler_simps "unfolding equations of the request handlers"

type_synonym oid = nat
type_synonym seconds = nat

subsection \<open>String.prototype.replace with a string pattern\<close>

text \<open>
  \<open>s.replace(pat, rep)\<close> replaces the first occurrence of \<open>pat\<close> in \<open>s\<close>, wherever it
  starts, and leaves \<open>s\<close> alone when there is none.
\<close>

fun replace_first :: "string \<Rightarrow> string \<Rightarrow> string \<Rightarrow> string" where
  "replace_first pat rep s =
     (if take (length pat) s = pat then rep @ drop (length pat) s
      else (case s of [] \<Rightarrow> [] | c # cs \<Rightarrow> c # replace_first pat rep cs))"

declare replace_first.simps [simp del]

subsection \<open>String.prototype.split on one character\<close>

fun split_on :: "char \<Rightarrow> string \<Rightarrow> string list" where
  "split_on d [] = [[]]"
| "split_on d (x # xs) =
     (if x = d then [] # split_on d xs
      else (case split_on d xs of [] \<Rightarrow> [[x]] | p # ps \<Rightarrow> (x # p) # ps))"

subsection \<open>Decimal numerals\<close>

definition digit_char :: "nat \<Rightarrow> char" where
  "digit_char d = char_of (48 + d)"

definition is_digit :: "char \<Rightarrow> bool" where
  "is_digit c \<longleftrightarrow> 48 \<le> (of_char c :: nat) \<and> (of_char c :: nat) < 58"

definition digit_val :: "char \<Rightarrow> nat" where
  "digit_val c = of_char c - 48"

fun show_nat :: "nat \<Rightarrow> string" where
  "show_nat n =
     (if n < 10 then [digit_char n] else show_nat (n div 10) @ [digit_char (n mod 10)])"

declare show_nat.simps [simp del]

definition read_nat :: "string \<Rightarrow> nat option" where
  "read_nat s =
     (if s \<noteq> [] \<and> list_all is_digit s
      then Some (foldl (\<lambda>a c. 10 * a + digit_val c) 0 s) else None)"

subsection \<open>Properties of the builtins\<close>

lemma replace_first_prefix [simp]: "replace_first pat rep (pat @ s) = rep @ s"
  by (simp add: replace_first.simps)

lemma replace_first_not_sublist:
  "\<not> sublist pat s \<Longrightarrow> replace_first pat rep s = s"
proof (induction s)
  case Nil
  then show ?case by (auto simp: replace_first.simps)
next
  case (Cons c cs)
  have "take (length pat) (c # cs) \<noteq> pat"
    using Cons.prems by (metis prefix_imp_sublist take_is_prefix)
  moreover have "\<not> sublist pat cs"
    using Cons.prems by (meson sublist_Cons_right)
  ultimately show ?case
    using Cons.IH by (simp add: replace_first.simps [of pat rep "c # cs"])
qed

lemma split_on_nonempty [simp]: "split_on d s \<noteq> []"
  by (induction s) (auto split: list.split)

lemma split_on_no_sep [simp]: "d \<notin> set s \<Longrightarrow> split_on d s = [s]"
  by (induction s) auto

lemma split_on_append_sep:
  "d \<notin> set a \<Longrightarrow> split_on d (a @ d # b) = a # split_on d b"
proof (induction a)
  case Nil
  then show ?case by simp
next
  case (Cons x a)
  then show ?case by (auto split: list.split)
qed

lemma of_char_digit_char: "d < 10 \<Longrightarrow> (of_char (digit_char d) :: nat) = 48 + d"
  by (simp add: digit_char_def)

lemma is_digit_digit_char [simp]: "d < 10 \<Longrightarrow> is_digit (digit_char d)"
  by (simp add: is_digit_def of_char_digit_char)

lemma digit_val_digit_char [simp]: "d < 10 \<Longrightarrow> digit_val (digit_char d) = d"
  by (simp add: digit_val_def of_char_digit_char)

lemma show_nat_digits: "list_all is_digit (show_nat n) \<and> show_nat n \<noteq> []"
proof (induction n rule: show_nat.induct)
  case (1 n)
  then show ?case by (simp add: show_nat.simps [of n])
qed

lemma show_nat_value: "foldl (\<lambda>a c. 10 * a + digit_val c) 0 (show_nat n) = n"
proof (induction n rule: show_nat.induct)
  case (1 n)
  show ?case
  proof (cases "n < 10")
    case True
    then show ?thesis by (simp add: show_nat.simps [of n])
  next
    case False
    with "1.IH" show ?thesis by (simp add: show_nat.simps [of n])
  qed
qed

theorem read_show_nat [simp]: "read_nat (show_nat n) = Some n"
  using show_nat_digits [of n] show_nat_value [of n] by (simp add: read_nat_def)

lemma list_all_not_in: "list_all P s \<Longrightarrow> \<not> P c \<Longrightarrow> c \<notin> set s"
  by (induction s) auto

lemma show_nat_no_sep [simp]: "\<not> is_digit c \<Longrightarrow> c \<notin> set (show_nat n)"
  by (rule list_all_not_in [OF conjunct1 [OF show_nat_digits]])

lemma comma_dot_not_digit [simp]:
  "\<not> is_digit CHR '',''" "\<not> is_digit CHR ''.''" "\<not> is_digit CHR '' ''"
  by (simp_all add: is_digit_def)

lemma not_sublist_no_char: "c \<in> set pat \<Longrightarrow> c \<notin> set s \<Longrightarrow> \<not> sublist pat s"
  by (meson set_mono_sublist subsetD)

lemma find_append_no_match:
  "\<not> list_ex P xs \<Longrightarrow> find P (xs @ ys) = find P ys"
  by (induction xs) auto

lemma find_Some_list_ex: "find P xs = Some x \<Longrightarrow> list_ex P xs"
  by (induction xs) (auto split: if_splits)

lemma find_None_iff_list_ex: "find P xs = None \<longleftrightarrow> \<not> list_ex P xs"
  by (induction xs) auto

end
