(* ===== verification/ObjectId.thy ===== *)
theory ObjectId
  imports Prelim "HOL-Library.Word"
begin

text \<open>
  The string form of MongoDB's ObjectIds (the bson library under mongoose). An ObjectId
  is 12 bytes (\<open>objectid\<close>, a 96-bit word); in JSON and in the URL paths the front end
  builds (\<open>/api/Customer/${editingId}\<close>) it is written as 24 lower-case hex digits
  (\<open>oid_hex\<close>, \<open>toHexString\<close>), and \<open>new ObjectId(s)\<close>, which mongoose calls to cast
  \<open>req.params.id\<close> (\<open>src/backend/index.js\<close> lines 132, 147), accepts exactly the
  strings of 24 hex digits of either case (\<open>valid_oid_string\<close>) and decodes them
  with \<open>parse_hex\<close>. Documents are identified by numbers (\<open>oid\<close>); the id a number
  stands for is its 96-bit value. The cast itself, with its \<open>CastError\<close>, is in
  theory \<open>Store\<close>.
\<close>

unbundle bit_operations_syntax

type_synonym objectid = "96 word"

text \<open>One hexadecimal digit, lower case as \<open>toHexString\<close> writes it.\<close>

definition hex_char :: "nat \<Rightarrow> char" where
  "hex_char d = (if d < 10 then char_of (48 + d) else char_of (87 + d))"

text \<open>The characters of \<open>checkForHexRegExp\<close>, \<open>/^[0-9a-fA-F]{24}$/\<close>.\<close>

definition is_hex :: "char \<Rightarrow> bool" where
  "is_hex c \<longleftrightarrow>
     (let n = (of_char c :: nat) in 48 \<le> n \<and> n < 58 \<or> 65 \<le> n \<and> n < 71 \<or> 97 \<le> n \<and> n < 103)"

definition hex_val :: "char \<Rightarrow> nat" where
  "hex_val c = (let n = (of_char c :: nat) in if n < 58 then n - 48 else if n < 71 then n - 55 else n - 87)"

definition hex_lower :: "char \<Rightarrow> char" where
  "hex_lower c = (let n = (of_char c :: nat) in if 65 \<le> n \<and> n < 71 then char_of (n + 32) else c)"

text \<open>The \<open>k\<close> low hexadecimal digits of \<open>n\<close>, most significant first, zero-padded.\<close>

primrec hex_of :: "nat \<Rightarrow> nat \<Rightarrow> string" where
  "hex_of 0 n = []"
| "hex_of (Suc k) n = hex_of k (n div 16) @ [hex_char (n mod 16)]"

text \<open>
  \<open>ObjectId.prototype.toHexString\<close>, and so the \<open>_id\<close> of a document in
  \<open>res.json\<close>: the id read as a 12-byte ObjectId, as 24 lower-case hex digits.
\<close>

definition oid_hex :: "nat \<Rightarrow> string" where
  "oid_hex i = hex_of 24 (unat (word_of_nat i :: objectid))"

text \<open>The test of \<open>new ObjectId(string)\<close>: 24 characters, all hex digits.\<close>

definition valid_oid_string :: "string \<Rightarrow> bool" where
  "valid_oid_string s \<longleftrightarrow> length s = 24 \<and> list_all is_hex s"

text \<open>
  \<open>ByteUtils.fromHex\<close>: the digits shifted into the 96-bit value four bits at a
  time. \<open>hex_value\<close> is the reference reading of the digits as a number.
\<close>

definition parse_hex :: "string \<Rightarrow> objectid" where
  "parse_hex s = foldl (\<lambda>w c. push_bit 4 w OR word_of_nat (hex_val c)) 0 s"

definition hex_value :: "string \<Rightarrow> nat" where
  "hex_value s = foldl (\<lambda>n c. 16 * n + hex_val c) 0 s"

subsection \<open>Digits\<close>

lemma of_char_hex_char:
  "d < 16 \<Longrightarrow> (of_char (hex_char d) :: nat) = (if d < 10 then 48 + d else 87 + d)"
  by (simp add: hex_char_def)

lemma is_hex_hex_char [simp]: "d < 16 \<Longrightarrow> is_hex (hex_char d)"
  by (simp add: is_hex_def of_char_hex_char Let_def)

lemma hex_val_hex_char [simp]: "d < 16 \<Longrightarrow> hex_val (hex_char d) = d"
  by (simp add: hex_val_def of_char_hex_char Let_def)

lemma hex_lower_hex_char [simp]: "d < 16 \<Longrightarrow> hex_lower (hex_char d) = hex_char d"
  by (simp add: hex_lower_def of_char_hex_char Let_def)

lemma hex_val_lt: "is_hex c \<Longrightarrow> hex_val c < 16"
  by (auto simp: is_hex_def hex_val_def Let_def)

lemma nat_nibble_or: "v < 16 \<Longrightarrow> push_bit 4 (a::nat) OR v = 16 * a + v"
proof -
  assume v: "v < 16"
  have "\<not> bit (push_bit 4 a) n \<or> \<not> bit v n" for n
  proof (cases "n < 4")
    case True
    then show ?thesis by (simp add: bit_push_bit_iff)
  next
    case False
    then have "(16::nat) \<le> 2 ^ n"
      using power_increasing [of 4 n "2::nat"] by simp
    with v have "v div 2 ^ n = 0" by simp
    then show ?thesis by (simp add: bit_nat_def)
  qed
  then have "push_bit 4 a + v = push_bit 4 a OR v"
    by (rule disjunctive_add)
  then show ?thesis by (simp add: push_bit_eq_mult)
qed

lemma nibble_or:
  "v < 16 \<Longrightarrow> push_bit 4 (word_of_nat a :: 'a::len word) OR word_of_nat v = word_of_nat (16 * a + v)"
  by (simp add: of_nat_push_bit [symmetric] of_nat_or_eq [symmetric] nat_nibble_or)


lemma hex_value_snoc [simp]: "hex_value (s @ [c]) = 16 * hex_value s + hex_val c"
  by (simp add: hex_value_def)

lemma hex_value_Nil [simp]: "hex_value [] = 0"
  by (simp add: hex_value_def)

lemma parse_hex_snoc: "parse_hex (s @ [c]) = push_bit 4 (parse_hex s) OR word_of_nat (hex_val c)"
  by (simp add: parse_hex_def)

lemma parse_hex_value: "list_all is_hex s \<Longrightarrow> parse_hex s = word_of_nat (hex_value s)"
proof (induction s rule: rev_induct)
  case Nil
  then show ?case by (simp add: parse_hex_def)
next
  case (snoc c s)
  then show ?case by (simp add: parse_hex_snoc nibble_or hex_val_lt)
qed

lemma hex_value_bound: "list_all is_hex s \<Longrightarrow> hex_value s < 16 ^ length s"
proof (induction s rule: rev_induct)
  case Nil
  then show ?case by simp
next
  case (snoc c s)
  then have "hex_value s + 1 \<le> 16 ^ length s" and "hex_val c < 16"
    by (simp_all add: hex_val_lt)
  then show ?case by simp
qed

lemma hex_of_length [simp]: "length (hex_of k n) = k"
  by (induction k arbitrary: n) simp_all

lemma hex_of_is_hex: "list_all is_hex (hex_of k n)"
  by (induction k arbitrary: n) simp_all

lemma hex_value_hex_of: "hex_value (hex_of k n) = n mod 16 ^ k"
proof (induction k arbitrary: n)
  case 0
  then show ?case by simp
next
  case (Suc k)
  have "n mod (16 * 16 ^ k) = 16 * (n div 16 mod 16 ^ k) + n mod 16"
    by (rule mod_mult2_eq)
  with Suc show ?case by simp
qed

lemma unat_oid_of_nat: "unat (word_of_nat i :: objectid) = i mod 2 ^ 96"
  by (simp add: unat_of_nat)

lemma unat_oid_small: "i < 2 ^ 96 \<Longrightarrow> unat (word_of_nat i :: objectid) = i"
  by (simp add: unat_of_nat)

lemma hex_value_oid_hex: "i < 2 ^ 96 \<Longrightarrow> hex_value (oid_hex i) = i"
proof -
  assume i: "i < 2 ^ 96"
  then have "i mod 16 ^ 24 = i" by simp
  with i show ?thesis by (simp add: oid_hex_def hex_value_hex_of unat_oid_small)
qed

end
