(* ===== verification/Store.thy ===== *)
theory Store
  imports ObjectId
begin

text \<open>
  The document store as \<open>src/backend/index.js\<close> sees it through mongoose: the two
  schemas (\<open>UserSchema\<close>, \<open>CustomerSchema\<close>) as records, the database as a record of two
  collections kept in natural (insertion) order and the ObjectId generator, the
  collection operations the handlers call, and the HTTP responses they send.
  \<^item> \<open>findOne\<close> is the first document that matches (\<open>List.find\<close>); \<open>find\<close> is every
    match in natural order (\<open>filter\<close>);
  \<^item> \<open>findOneAndUpdate\<close> and \<open>findOneAndDelete\<close> change the first match only
    (\<open>update_first\<close>, \<open>remove_first\<close>) and do nothing when nothing matches;
  \<^item> \<open>save\<close> runs the schema validators: a \<open>required\<close> string must be non-empty
    (mongoose's \<open>checkRequired\<close> rejects \<open>''\<close>) and a \<open>unique\<close> index rejects a second
    document with the same key; a rejected save throws and stores nothing;
  \<^item> a path parameter is cast to an ObjectId before the query runs, and a string that is
    not an ObjectId, 24 hex digits (theory \<open>ObjectId\<close>), throws a \<open>CastError\<close>.
\<close>

subsection \<open>Schemas and database\<close>

record user_doc =
  user_id :: oid
  username :: string
  password :: string

record customer_doc =
  customer_id :: oid
  name :: string
  membershipType :: string
  user :: oid

record db =
  users :: "user_doc list"
  customers :: "customer_doc list"
  next_oid :: oid

definition init_db :: db where
  "init_db = \<lparr>users = [], customers = [], next_oid = 0\<rparr>"

datatype exn = ValidationError | DuplicateKeyError | CastError

subsection \<open>HTTP responses\<close>

datatype body =
    Message string
  | Text string
  | TokenBody string
  | CustomerList "customer_doc list"

record response =
  status :: nat
  body :: body

definition resp :: "nat \<Rightarrow> body \<Rightarrow> response" where
  "resp s b = \<lparr>status = s, body = b\<rparr>"

definition server_error :: response where
  "server_error = resp 500 (Message ''Server Error'')"

subsection \<open>Collection operations\<close>

fun update_first :: "('a \<Rightarrow> bool) \<Rightarrow> ('a \<Rightarrow> 'a) \<Rightarrow> 'a list \<Rightarrow> 'a list" where
  "update_first P f [] = []"
| "update_first P f (x # xs) = (if P x then f x # xs else x # update_first P f xs)"

fun remove_first :: "('a \<Rightarrow> bool) \<Rightarrow> 'a list \<Rightarrow> 'a list" where
  "remove_first P [] = []"
| "remove_first P (x # xs) = (if P x then xs else x # remove_first P xs)"

definition cast_oid :: "string \<Rightarrow> exn + oid" where
  "cast_oid s = (if valid_oid_string s then Inr (unat (parse_hex s)) else Inl CastError)"

definition required_ok :: "string \<Rightarrow> bool" where
  "required_ok s \<longleftrightarrow> s \<noteq> []"

text \<open>\<open>new User({...}).save()\<close>: both fields required, \<open>username\<close> unique.\<close>

definition save_user :: "db \<Rightarrow> string \<Rightarrow> string \<Rightarrow> exn + db" where
  "save_user d un pw =
     (if \<not> required_ok un \<or> \<not> required_ok pw then Inl ValidationError
      else if list_ex (\<lambda>u. username u = un) (users d) then Inl DuplicateKeyError
      else Inr (d\<lparr>users := users d @ [\<lparr>user_id = next_oid d, username = un, password = pw\<rparr>],
                  next_oid := Suc (next_oid d)\<rparr>))"

text \<open>\<open>new Customer({...}).save()\<close>: \<open>name\<close> and \<open>membershipType\<close> required.\<close>

definition save_customer :: "db \<Rightarrow> string \<Rightarrow> string \<Rightarrow> oid \<Rightarrow> exn + db" where
  "save_customer d nm mt uid =
     (if \<not> required_ok nm \<or> \<not> required_ok mt then Inl ValidationError
      else Inr (d\<lparr>customers := customers d @
                    [\<lparr>customer_id = next_oid d, name = nm, membershipType = mt, user = uid\<rparr>],
                  next_oid := Suc (next_oid d)\<rparr>))"

subsection \<open>Responses\<close>

lemma resp_sel [simp]: "status (resp s b) = s" "body (resp s b) = b"
  by (simp_all add: resp_def)

lemma server_error_sel [simp]:
  "status server_error = 500" "body server_error = Message ''Server Error''"
  by (simp_all add: server_error_def)

subsection \<open>Lemmas on the collection operations\<close>

lemma update_first_no_match [simp, store_simps]:
  "\<not> list_ex P xs \<Longrightarrow> update_first P f xs = xs"
  by (induction xs) auto

lemma remove_first_no_match [simp, store_simps]:
  "\<not> list_ex P xs \<Longrightarrow> remove_first P xs = xs"
  by (induction xs) auto

lemma filter_update_first_other:
  "(\<And>x. P x \<Longrightarrow> \<not> Q x \<and> \<not> Q (f x)) \<Longrightarrow> filter Q (update_first P f xs) = filter Q xs"
  by (induction xs) auto

lemma filter_remove_first_other:
  "(\<And>x. P x \<Longrightarrow> \<not> Q x) \<Longrightarrow> filter Q (remove_first P xs) = filter Q xs"
  by (induction xs) auto

lemma map_update_first_same [simp]:
  "(\<And>x. g (f x) = g x) \<Longrightarrow> map g (update_first P f xs) = map g xs"
  by (induction xs) auto

lemma set_remove_first_subset: "set (remove_first P xs) \<subseteq> set xs"
  by (induction xs) auto

lemma distinct_map_remove_first:
  "distinct (map g xs) \<Longrightarrow> distinct (map g (remove_first P xs))"
proof (induction xs)
  case Nil
  then show ?case by simp
next
  case (Cons x xs)
  then show ?case using set_remove_first_subset [of P xs] by auto
qed

text \<open>With distinct keys, changing the first match is changing every match.\<close>

lemma update_first_distinct:
  "distinct (map g xs) \<Longrightarrow>
   update_first (\<lambda>x. g x = k \<and> Q x) f xs = map (\<lambda>x. if g x = k \<and> Q x then f x else x) xs"
proof (induction xs)
  case Nil
  then show ?case by simp
next
  case (Cons x xs)
  then have "g x = k \<Longrightarrow> map (\<lambda>y. if g y = k \<and> Q y then f y else y) xs = xs"
    by (induction xs) auto
  with Cons show ?case by auto
qed

lemma remove_first_distinct:
  "distinct (map g xs) \<Longrightarrow>
   remove_first (\<lambda>x. g x = k \<and> Q x) xs = filter (\<lambda>x. \<not> (g x = k \<and> Q x)) xs"
proof (induction xs)
  case Nil
  then show ?case by simp
next
  case (Cons x xs)
  then have "g x = k \<Longrightarrow> filter (\<lambda>y. \<not> (g y = k \<and> Q y)) xs = xs"
    by (auto simp: filter_id_conv image_iff)
  with Cons show ?case by auto
qed

lemma cast_oid_Inr:
  "cast_oid s = Inr i \<longleftrightarrow> valid_oid_string s \<and> i = hex_value s"
proof -
  have "valid_oid_string s \<Longrightarrow> hex_value s < 2 ^ 96"
    using hex_value_bound [of s] by (simp add: valid_oid_string_def)
  then show ?thesis
    by (auto simp: cast_oid_def parse_hex_value unat_oid_of_nat valid_oid_string_def)
qed

lemma cast_oid_oid_hex [simp]: "i < 2 ^ 96 \<Longrightarrow> cast_oid (oid_hex i) = Inr i"
  using hex_value_oid_hex [of i]
  by (simp add: cast_oid_Inr valid_oid_string_def oid_hex_def hex_of_is_hex)

lemma save_user_Inr:
  "save_user d un pw = Inr d' \<longleftrightarrow>
     un \<noteq> [] \<and> pw \<noteq> [] \<and> \<not> list_ex (\<lambda>u. username u = un) (users d) \<and>
     d' = d\<lparr>users := users d @ [\<lparr>user_id = next_oid d, username = un, password = pw\<rparr>],
            next_oid := Suc (next_oid d)\<rparr>"
  by (auto simp: save_user_def required_ok_def)

lemma save_customer_Inr:
  "save_customer d nm mt uid = Inr d' \<longleftrightarrow>
     nm \<noteq> [] \<and> mt \<noteq> [] \<and>
     d' = d\<lparr>customers := customers d @
              [\<lparr>customer_id = next_oid d, name = nm, membershipType = mt, user = uid\<rparr>],
            next_oid := Suc (next_oid d)\<rparr>"
  by (auto simp: save_customer_def required_ok_def)

lemma save_customer_Inl:
  "save_customer d nm mt uid = Inl e \<longleftrightarrow> e = ValidationError \<and> (nm = [] \<or> mt = [])"
  by (auto simp: save_customer_def required_ok_def)

end
