(* ===== verification/Crypto.thy ===== *)
theory Crypto
  imports Prelim
begin

text \<open>
  Models of the two cryptographic libraries that \<open>src/backend/index.js\<close> calls:
  \<open>bcryptjs\<close> (\<open>bcrypt.hash\<close>, \<open>bcrypt.compare\<close>) and \<open>jsonwebtoken\<close> (\<open>jwt.sign\<close>,
  \<open>jwt.verify\<close>). They are libraries, not code of the repository: what is modelled is
  the contract the handlers rely on, with the primitive underneath left as a parameter.
  \<^item> bcrypt: a hash is \<open>$2a$10$\<close>, a 22-character salt and a digest of the salt and of
    the first 72 bytes of the password (bcrypt ignores the rest). The digest function is
    the parameter \<open>kdf\<close>; \<open>compare\<close> reads the salt back from the stored hash and
    recomputes.
  \<^item> JWT (HS256): a token is \<open>header.payload.signature\<close>; the signature is a MAC of
    \<open>header.payload\<close> under the server's secret, the parameter \<open>mac\<close> (HMAC-SHA256 in
    base64url, which never contains a dot). The payload carries \<open>userId\<close>, \<open>iat\<close> and
    \<open>exp\<close>; the JSON/base64 rendering is replaced by decimal fields separated by commas,
    which keeps the one property the code needs: decoding an encoded payload gives it
    back. \<open>verify\<close> checks the shape, the signature and then \<open>now < exp\<close>.
\<close>

subsection \<open>bcryptjs\<close>

type_synonym kdf = "string \<Rightarrow> string \<Rightarrow> string"

definition bcrypt_prefix :: string where
  "bcrypt_prefix = ''$2a$10$''"

definition bcrypt_hash :: "kdf \<Rightarrow> string \<Rightarrow> string \<Rightarrow> string" where
  "bcrypt_hash kdf salt pw = bcrypt_prefix @ salt @ kdf salt (take 72 pw)"

definition bcrypt_compare :: "kdf \<Rightarrow> string \<Rightarrow> string \<Rightarrow> bool" where
  "bcrypt_compare kdf pw h = (h = bcrypt_hash kdf (take 22 (drop 7 h)) pw)"

subsection \<open>jsonwebtoken\<close>

type_synonym mac = "string \<Rightarrow> string \<Rightarrow> string"

record jwt_payload =
  jwt_userId :: oid
  jwt_iat :: seconds
  jwt_exp :: seconds

datatype jwt_error = JsonWebTokenError string | TokenExpiredError

text \<open>The base64url alphabet, in which jsonwebtoken writes the signature.\<close>

definition base64url_char :: "char \<Rightarrow> bool" where
  "base64url_char c \<longleftrightarrow>
     is_digit c \<or> (65 \<le> (of_char c :: nat) \<and> (of_char c :: nat) \<le> 90) \<or>
     (97 \<le> (of_char c :: nat) \<and> (of_char c :: nat) \<le> 122) \<or> c = CHR ''-'' \<or> c = CHR ''_''"

definition mac_base64url :: "mac \<Rightarrow> bool" where
  "mac_base64url mac \<longleftrightarrow> (\<forall>k m. list_all base64url_char (mac k m))"

text \<open>The header \<open>{"alg":"HS256","typ":"JWT"}\<close> in base64url, as jsonwebtoken emits it.\<close>

definition jwt_header :: string where
  "jwt_header = ''eyJhbGciOiJIUzI1NiIsInR5cCI6IkpXVCJ9''"

definition encode_payload :: "jwt_payload \<Rightarrow> string" where
  "encode_payload p =
     show_nat (jwt_userId p) @ '','' @ show_nat (jwt_iat p) @ '','' @ show_nat (jwt_exp p)"

definition decode_payload :: "string \<Rightarrow> jwt_payload option" where
  "decode_payload s =
     (case split_on CHR '','' s of
        [u, i, e] \<Rightarrow>
          (case (read_nat u, read_nat i, read_nat e) of
             (Some u', Some i', Some e') \<Rightarrow> Some \<lparr>jwt_userId = u', jwt_iat = i', jwt_exp = e'\<rparr>
           | _ \<Rightarrow> None)
      | _ \<Rightarrow> None)"

text \<open>\<open>expiresIn: '1h'\<close> is 3600 seconds after \<open>iat\<close>.\<close>

definition token_lifetime :: seconds where
  "token_lifetime = 3600"

definition jwt_signing_input :: "jwt_payload \<Rightarrow> string" where
  "jwt_signing_input p = jwt_header @ ''.'' @ encode_payload p"

definition jwt_sign :: "mac \<Rightarrow> string \<Rightarrow> seconds \<Rightarrow> oid \<Rightarrow> string" where
  "jwt_sign mac key now uid =
     (let input = jwt_signing_input
                    \<lparr>jwt_userId = uid, jwt_iat = now, jwt_exp = now + token_lifetime\<rparr>
      in input @ ''.'' @ mac key input)"

definition jwt_verify :: "mac \<Rightarrow> string \<Rightarrow> string \<Rightarrow> seconds \<Rightarrow> jwt_error + jwt_payload" where
  "jwt_verify mac key tok now =
     (if tok = [] then Inl (JsonWebTokenError ''jwt must be provided'')
      else (case split_on CHR ''.'' tok of
        [h, p, sig] \<Rightarrow>
          (case decode_payload p of
             None \<Rightarrow> Inl (JsonWebTokenError ''invalid token'')
           | Some pl \<Rightarrow>
               if h \<noteq> jwt_header then Inl (JsonWebTokenError ''invalid algorithm'')
               else if sig \<noteq> mac key (h @ ''.'' @ p) then Inl (JsonWebTokenError ''invalid signature'')
               else if jwt_exp pl \<le> now then Inl TokenExpiredError
               else Inr pl)
      | _ \<Rightarrow> Inl (JsonWebTokenError ''jwt malformed'')))"

subsection \<open>Properties of the library models\<close>

lemma bcrypt_hash_salt: "length salt = 22 \<Longrightarrow> take 22 (drop 7 (bcrypt_hash kdf salt pw)) = salt"
  by (simp add: bcrypt_hash_def bcrypt_prefix_def)

theorem bcrypt_compare_hash:
  assumes "length salt = 22"
  shows "bcrypt_compare kdf pw' (bcrypt_hash kdf salt pw) \<longleftrightarrow>
         kdf salt (take 72 pw') = kdf salt (take 72 pw)"
  using assms by (simp add: bcrypt_compare_def bcrypt_hash_salt) (auto simp: bcrypt_hash_def)

lemma base64url_not_dot_space [simp]:
  "\<not> base64url_char CHR ''.''" "\<not> base64url_char CHR '' ''"
  by (simp_all add: base64url_char_def is_digit_def)

lemma mac_base64url_no_dot [simp]:
  assumes "mac_base64url mac"
  shows "CHR ''.'' \<notin> set (mac k m)" and "CHR '' '' \<notin> set (mac k m)"
proof -
  have l: "list_all base64url_char (mac k m)"
    using assms by (simp add: mac_base64url_def)
  show "CHR ''.'' \<notin> set (mac k m)" by (rule list_all_not_in [OF l]) simp
  show "CHR '' '' \<notin> set (mac k m)" by (rule list_all_not_in [OF l]) simp
qed

lemma mac_base64url_show_nat: "mac_base64url (\<lambda>k m. show_nat (f k m))"
  unfolding mac_base64url_def
proof (intro allI)
  fix k m
  have "list_all is_digit (show_nat (f k m))"
    by (rule conjunct1 [OF show_nat_digits])
  then show "list_all base64url_char (show_nat (f k m))"
    by (rule list.pred_mono_strong) (simp add: base64url_char_def)
qed

lemma decode_encode_payload [simp]: "decode_payload (encode_payload p) = Some p"
  by (simp add: decode_payload_def encode_payload_def split_on_append_sep)

lemma jwt_header_no_dot [simp]: "CHR ''.'' \<notin> set jwt_header"
  by (simp add: jwt_header_def)

lemma encode_payload_no_dot [simp]: "CHR ''.'' \<notin> set (encode_payload p)"
  by (simp add: encode_payload_def)

lemma jwt_sign_split:
  assumes "CHR ''.'' \<notin> set (mac key (jwt_signing_input p))"
  shows "split_on CHR ''.'' (jwt_signing_input p @ ''.'' @ mac key (jwt_signing_input p)) =
         [jwt_header, encode_payload p, mac key (jwt_signing_input p)]"
  using assms by (simp add: jwt_signing_input_def split_on_append_sep)

lemma jwt_sign_no_space [simp]:
  "mac_base64url mac \<Longrightarrow> CHR '' '' \<notin> set (jwt_sign mac key t uid)"
  by (simp add: jwt_sign_def Let_def jwt_signing_input_def jwt_header_def encode_payload_def)

theorem jwt_verify_sign:
  assumes "mac_base64url mac"
  shows "jwt_verify mac key (jwt_sign mac key t uid) now =
           (if t + token_lifetime \<le> now then Inl TokenExpiredError
            else Inr \<lparr>jwt_userId = uid, jwt_iat = t, jwt_exp = t + token_lifetime\<rparr>)"
proof -
  define p where "p = \<lparr>jwt_userId = uid, jwt_iat = t, jwt_exp = t + token_lifetime\<rparr>"
  have split: "split_on CHR ''.'' (jwt_sign mac key t uid) =
                 [jwt_header, encode_payload p, mac key (jwt_signing_input p)]"
    using assms jwt_sign_split [of mac key p] by (simp add: jwt_sign_def p_def Let_def)
  have "jwt_sign mac key t uid \<noteq> []"
    by (simp add: jwt_sign_def Let_def)
  with split show ?thesis
    by (simp add: jwt_verify_def p_def jwt_signing_input_def)
qed

text \<open>A token that verifies carries the MAC of its own header and payload under the key.\<close>

lemma jwt_verify_Inr:
  assumes "jwt_verify mac key tok now = Inr pl"
  shows "\<exists>p sig. tok \<noteq> [] \<and> split_on CHR ''.'' tok = [jwt_header, p, sig] \<and>
           decode_payload p = Some pl \<and> sig = mac key (jwt_header @ ''.'' @ p) \<and>
           now < jwt_exp pl"
  using assms
  by (auto simp: jwt_verify_def split: if_splits list.splits option.splits)

end
