(* ===== verification/Session.thy ===== *)
theory Session
  imports Store Crypto
begin

text \<open>
  The Session Authority of \<open>src/backend/index.js\<close>: the signing secret (line 9,
  \<open>process.env.JWT_SECRET || 'your_jwt_secret_key'\<close>) and the \<open>verifyToken\<close>
  middleware (lines 39--51) that guards every customer route. The middleware either sends
  a response itself (\<open>Inl\<close>: 403 when the \<open>Authorization\<close> header is absent or empty,
  401 when \<open>jwt.verify\<close> fails) or calls \<open>next()\<close> with \<open>req.userId\<close> set (\<open>Inr\<close>).
  Tokens are issued by the login handler (theory \<open>Credentials\<close>) with \<open>jwt_sign\<close>.
\<close>

definition default_jwt_secret :: string where
  "default_jwt_secret = ''your_jwt_secret_key''"

text \<open>\<open>x || d\<close> falls back to \<open>d\<close> when \<open>x\<close> is \<open>undefined\<close> or the empty string.\<close>

definition JWT_SECRET :: "string option \<Rightarrow> string" where
  "JWT_SECRET env =
     (case env of None \<Rightarrow> default_jwt_secret
      | Some s \<Rightarrow> if s = [] then default_jwt_secret else s)"

definition bearer_prefix :: string where
  "bearer_prefix = ''Bearer ''"

definition verifyToken :: "mac \<Rightarrow> string \<Rightarrow> seconds \<Rightarrow> string option \<Rightarrow> response + oid" where
  "verifyToken mac key now hdr =
     (case hdr of
        None \<Rightarrow> Inl (resp 403 (Text ''Token Missing''))
      | Some h \<Rightarrow>
          if h = [] then Inl (resp 403 (Text ''Token Missing''))
          else (case jwt_verify mac key (replace_first bearer_prefix [] h) now of
                  Inl _ \<Rightarrow> Inl (resp 401 (Text ''Invalid Token''))
                | Inr p \<Rightarrow> Inr (jwt_userId p)))"

subsection \<open>Behaviour of the middleware\<close>

lemma bearer_prefix_ne [simp]: "bearer_prefix \<noteq> []"
  by (simp add: bearer_prefix_def)

lemma verifyToken_missing [simp]:
  "verifyToken mac key now None = Inl (resp 403 (Text ''Token Missing''))"
  "verifyToken mac key now (Some []) = Inl (resp 403 (Text ''Token Missing''))"
  by (simp_all add: verifyToken_def)

lemma verifyToken_Inl_status:
  "verifyToken mac key now hdr = Inl r \<Longrightarrow> status r = 403 \<or> status r = 401"
  by (auto simp: verifyToken_def split: option.splits if_splits sum.splits)


text \<open>The header as the dashboard sends it, \<open>Bearer <token>\<close>, for a token of the login handler.\<close>

lemma verifyToken_bearer_sign:
  assumes "mac_base64url mac"
  shows "verifyToken mac key now (Some (bearer_prefix @ jwt_sign mac key t uid)) =
           (if t + token_lifetime \<le> now then Inl (resp 401 (Text ''Invalid Token'')) else Inr uid)"
  using assms by (simp add: verifyToken_def jwt_verify_sign)

text \<open>
  C15. The \<open>Bearer \<close> prefix is optional: a header that carries a token of the login
  handler without the prefix is accepted exactly like \<open>Bearer <token>\<close>, within the
  same one-hour window, because \<open>token.replace('Bearer ', '')\<close> finds nothing to strip
  and leaves the bare token alone.
\<close>

lemma verifyToken_raw_sign:
  assumes "mac_base64url mac"
  shows "verifyToken mac key now (Some (jwt_sign mac key t uid)) =
           (if t + token_lifetime \<le> now then Inl (resp 401 (Text ''Invalid Token'')) else Inr uid)"
proof -
  have "\<not> sublist bearer_prefix (jwt_sign mac key t uid)"
    using assms by (intro not_sublist_no_char [of "CHR '' ''"]) (simp_all add: bearer_prefix_def)
  then have "replace_first bearer_prefix [] (jwt_sign mac key t uid) = jwt_sign mac key t uid"
    by (rule replace_first_not_sublist)
  moreover have "jwt_sign mac key t uid \<noteq> []"
    by (simp add: jwt_sign_def Let_def)
  ultimately show ?thesis
    using assms by (simp add: verifyToken_def jwt_verify_sign)
qed

end
