(* ===== verification/Credentials.thy ===== *)
theory Credentials
  imports Store Session
begin

text \<open>
  The Credential Store of \<open>src/backend/index.js\<close>: the handlers of
  \<open>POST /api/register\<close> (lines 53--74) and \<open>POST /api/Login\<close> (lines 76--94). Register
  looks the username up (\<open>User.findOne\<close>), answers 400 when it is taken, and otherwise
  hashes the password with bcrypt (cost 10, a fresh salt given as the argument
  \<open>salt\<close>) and saves the user; a save that throws (a validator, the unique index) ends in
  the \<open>catch\<close> and a 500. Login looks the username up, compares the password with the
  stored hash, and on success signs a token for the user's id that expires one hour after
  \<open>now\<close>. Login reads the database and never writes it, so it returns a response only.
\<close>

definition register :: "kdf \<Rightarrow> string \<Rightarrow> db \<Rightarrow> string \<Rightarrow> string \<Rightarrow> response \<times> db" where
  "register kdf salt d un pw =
     (case find (\<lambda>u. username u = un) (users d) of
        Some _ \<Rightarrow> (resp 400 (Message ''Username already exists''), d)
      | None \<Rightarrow>
          (case save_user d un (bcrypt_hash kdf salt pw) of
             Inl _ \<Rightarrow> (server_error, d)
           | Inr d' \<Rightarrow> (resp 201 (Message ''User Registered Successfully''), d')))"

definition login ::
  "kdf \<Rightarrow> mac \<Rightarrow> string \<Rightarrow> seconds \<Rightarrow> db \<Rightarrow> string \<Rightarrow> string \<Rightarrow> response" where
  "login kdf mac key now d un pw =
     (case find (\<lambda>u. username u = un) (users d) of
        None \<Rightarrow> resp 401 (Message ''Invaild Credentials'')
      | Some u \<Rightarrow>
          if \<not> bcrypt_compare kdf pw (password u)
          then resp 401 (Message ''Invalid Credentials'')
          else resp 200 (TokenBody (jwt_sign mac key now (user_id u))))"

subsection \<open>Register\<close>

lemma bcrypt_hash_ne [simp]: "bcrypt_hash kdf salt pw \<noteq> []"
  by (simp add: bcrypt_hash_def bcrypt_prefix_def)

lemma register_taken:
  "list_ex (\<lambda>u. username u = un) (users d) \<Longrightarrow>
   register kdf salt d un pw = (resp 400 (Message ''Username already exists''), d)"
  by (cases "find (\<lambda>u. username u = un) (users d)")
     (auto simp: register_def find_None_iff_list_ex)

lemma register_fresh:
  assumes "\<not> list_ex (\<lambda>u. username u = un) (users d)" and "un \<noteq> []"
  shows "register kdf salt d un pw =
           (resp 201 (Message ''User Registered Successfully''),
            d\<lparr>users := users d @ [\<lparr>user_id = next_oid d, username = un,
                                     password = bcrypt_hash kdf salt pw\<rparr>],
              next_oid := Suc (next_oid d)\<rparr>)"
proof -
  have "find (\<lambda>u. username u = un) (users d) = None"
    using assms(1) by (simp add: find_None_iff_list_ex)
  with assms show ?thesis
    by (simp add: register_def save_user_def required_ok_def)
qed

lemma register_empty_username:
  "register kdf salt d [] pw = (if list_ex (\<lambda>u. username u = []) (users d)
     then (resp 400 (Message ''Username already exists''), d) else (server_error, d))"
  by (auto simp: register_def find_None_iff_list_ex save_user_def required_ok_def
           split: option.split dest: find_Some_list_ex)

lemma register_cases:
  "register kdf salt d un pw = (r, d') \<Longrightarrow>
   d' = d \<or> (\<not> list_ex (\<lambda>u. username u = un) (users d) \<and> un \<noteq> [] \<and>
             d' = d\<lparr>users := users d @ [\<lparr>user_id = next_oid d, username = un,
                                         password = bcrypt_hash kdf salt pw\<rparr>],
                    next_oid := Suc (next_oid d)\<rparr>)"
  by (auto simp: register_def save_user_Inr split: option.splits sum.splits)

subsection \<open>Login\<close>

lemma login_unknown:
  "\<not> list_ex (\<lambda>u. username u = un) (users d) \<Longrightarrow>
   login kdf mac key now d un pw = resp 401 (Message ''Invaild Credentials'')"
  by (simp add: login_def find_None_iff_list_ex [symmetric])

lemma login_known:
  "find (\<lambda>u. username u = un) (users d) = Some u \<Longrightarrow>
   login kdf mac key now d un pw =
     (if bcrypt_compare kdf pw (password u) then resp 200 (TokenBody (jwt_sign mac key now (user_id u)))
      else resp 401 (Message ''Invalid Credentials''))"
  by (simp add: login_def)

lemma login_after_register:
  assumes "\<not> list_ex (\<lambda>u. username u = un) (users d)" and "un \<noteq> []"
    and "length salt = 22"
    and "register kdf salt d un pw = (r, d')"
  shows "login kdf mac key now d' un pw' =
           (if kdf salt (take 72 pw') = kdf salt (take 72 pw)
            then resp 200 (TokenBody (jwt_sign mac key now (next_oid d)))
            else resp 401 (Message ''Invalid Credentials''))"
proof -
  have d': "users d' = users d @ [\<lparr>user_id = next_oid d, username = un,
                                   password = bcrypt_hash kdf salt pw\<rparr>]"
    using assms(4) register_fresh [OF assms(1,2), of kdf salt pw] by auto
  have "find (\<lambda>u. username u = un) (users d') =
          Some \<lparr>user_id = next_oid d, username = un, password = bcrypt_hash kdf salt pw\<rparr>"
    using assms(1) by (simp add: d' find_append_no_match)
  then show ?thesis
    using assms(3) by (simp add: login_known bcrypt_compare_hash)
qed

end
