(* ===== verification/Customers.thy ===== *)
theory Customers
  imports Store
begin

text \<open>
  The Ownership-Scoped Record Store of \<open>src/backend/index.js\<close>: the four customer
  routes, each run after \<open>verifyToken\<close> has set \<open>req.userId\<close> (the argument
  \<open>uid\<close>; the composition with the middleware is in theory \<open>Server\<close>).
  \<^item> \<open>POST /api/Customer\<close> (lines 97--114): \<open>new Customer({name, membershipType,
    user: req.userId}).save()\<close>, 201; a failed validation ends in the catch, 500.
  \<^item> \<open>GET /api/readCustomer\<close> (lines 116--125): \<open>Customer.find({user: req.userId})\<close>.
  \<^item> \<open>PUT /api/Customer/:id\<close> (lines 127--142): \<open>findOneAndUpdate({_id, user},
    {name, membershipType})\<close>, 200 whether or not a document matched; no validators run.
  \<^item> \<open>DELETE /api/Customer/:id\<close> (lines 145--154): \<open>findOneAndDelete({_id, user})\<close>,
    200 whether or not a document matched.
  A path \<open>:id\<close> that is not an ObjectId makes the query throw: 500.
\<close>

definition owned :: "oid \<Rightarrow> customer_doc \<Rightarrow> bool" where
  "owned uid c \<longleftrightarrow> user c = uid"

definition post_customer :: "db \<Rightarrow> oid \<Rightarrow> string \<Rightarrow> string \<Rightarrow> response \<times> db" where
  "post_customer d uid nm mt =
     (case save_customer d nm mt uid of
        Inl _ \<Rightarrow> (server_error, d)
      | Inr d' \<Rightarrow> (resp 201 (Message ''Customer Added Successfully''), d'))"

definition get_readCustomer :: "db \<Rightarrow> oid \<Rightarrow> response" where
  "get_readCustomer d uid = resp 200 (CustomerList (filter (owned uid) (customers d)))"

definition target :: "oid \<Rightarrow> oid \<Rightarrow> customer_doc \<Rightarrow> bool" where
  "target i uid c \<longleftrightarrow> customer_id c = i \<and> user c = uid"

definition put_customer ::
  "db \<Rightarrow> oid \<Rightarrow> string \<Rightarrow> string \<Rightarrow> string \<Rightarrow> response \<times> db" where
  "put_customer d uid cid nm mt =
     (case cast_oid cid of
        Inl _ \<Rightarrow> (server_error, d)
      | Inr i \<Rightarrow>
          (resp 200 (Message ''Customer Updated Successfully''),
           d\<lparr>customers := update_first (target i uid)
                             (\<lambda>c. c\<lparr>name := nm, membershipType := mt\<rparr>) (customers d)\<rparr>))"

definition delete_customer :: "db \<Rightarrow> oid \<Rightarrow> string \<Rightarrow> response \<times> db" where
  "delete_customer d uid cid =
     (case cast_oid cid of
        Inl _ \<Rightarrow> (server_error, d)
      | Inr i \<Rightarrow>
          (resp 200 (Message ''Customer Deleted Successfully''),
           d\<lparr>customers := remove_first (target i uid) (customers d)\<rparr>))"

subsection \<open>Behaviour of each route\<close>

lemma post_customer_ok:
  "nm \<noteq> [] \<Longrightarrow> mt \<noteq> [] \<Longrightarrow>
   post_customer d uid nm mt =
     (resp 201 (Message ''Customer Added Successfully''),
      d\<lparr>customers := customers d @
           [\<lparr>customer_id = next_oid d, name = nm, membershipType = mt, user = uid\<rparr>],
         next_oid := Suc (next_oid d)\<rparr>)"
  by (simp add: post_customer_def save_customer_def required_ok_def)

lemma post_customer_invalid:
  "nm = [] \<or> mt = [] \<Longrightarrow> post_customer d uid nm mt = (server_error, d)"
  by (auto simp: post_customer_def save_customer_def required_ok_def)

lemma put_customer_cast_error:
  "cast_oid cid = Inl e \<Longrightarrow> put_customer d uid cid nm mt = (server_error, d)"
  by (simp add: put_customer_def)

lemma delete_customer_cast_error:
  "cast_oid cid = Inl e \<Longrightarrow> delete_customer d uid cid = (server_error, d)"
  by (simp add: delete_customer_def)

lemma put_customer_status:
  "status (fst (put_customer d uid cid nm mt)) \<in> {200, 500}"
  by (simp add: put_customer_def split: sum.split)

lemma delete_customer_status:
  "status (fst (delete_customer d uid cid)) \<in> {200, 500}"
  by (simp add: delete_customer_def split: sum.split)

subsection \<open>Frame properties: what each route leaves alone\<close>

lemma post_customer_other_owner:
  "uid' \<noteq> uid \<Longrightarrow>
   filter (owned uid') (customers (snd (post_customer d uid nm mt))) =
   filter (owned uid') (customers d)"
  by (auto simp: post_customer_def save_customer_def owned_def split: sum.split)

lemma put_customer_other_owner:
  "uid' \<noteq> uid \<Longrightarrow>
   filter (owned uid') (customers (snd (put_customer d uid cid nm mt))) =
   filter (owned uid') (customers d)"
  by (auto simp: put_customer_def target_def owned_def
           intro!: filter_update_first_other split: sum.split)

lemma delete_customer_other_owner:
  "uid' \<noteq> uid \<Longrightarrow>
   filter (owned uid') (customers (snd (delete_customer d uid cid))) =
   filter (owned uid') (customers d)"
  by (auto simp: delete_customer_def target_def owned_def
           intro!: filter_remove_first_other split: sum.split)

lemma put_customer_users [simp]:
  "users (snd (put_customer d uid cid nm mt)) = users d"
  "next_oid (snd (put_customer d uid cid nm mt)) = next_oid d"
  by (simp_all add: put_customer_def split: sum.split)

lemma delete_customer_users [simp]:
  "users (snd (delete_customer d uid cid)) = users d"
  "next_oid (snd (delete_customer d uid cid)) = next_oid d"
  by (simp_all add: delete_customer_def split: sum.split)

lemma post_customer_users [simp]:
  "users (snd (post_customer d uid nm mt)) = users d"
  by (simp add: post_customer_def save_customer_def split: sum.split)

subsection \<open>What the owner sees after a change\<close>

lemma filter_owned_update:
  "filter (owned uid) (map (\<lambda>c. if target i uid c then c\<lparr>name := nm, membershipType := mt\<rparr> else c) xs) =
   map (\<lambda>c. if customer_id c = i then c\<lparr>name := nm, membershipType := mt\<rparr> else c)
     (filter (owned uid) xs)"
  by (induction xs) (auto simp: target_def owned_def)

lemma filter_owned_delete:
  "filter (owned uid) (filter (\<lambda>c. \<not> target i uid c) xs) =
   filter (\<lambda>c. customer_id c \<noteq> i) (filter (owned uid) xs)"
  by (induction xs) (auto simp: target_def owned_def)

lemma put_customer_distinct:
  assumes "distinct (map customer_id (customers d))" and "cast_oid cid = Inr i"
  shows "customers (snd (put_customer d uid cid nm mt)) =
           map (\<lambda>c. if target i uid c then c\<lparr>name := nm, membershipType := mt\<rparr> else c) (customers d)"
  using update_first_distinct [OF assms(1), of i "\<lambda>c. user c = uid"] assms(2)
  by (simp add: put_customer_def target_def [abs_def])

lemma delete_customer_distinct:
  assumes "distinct (map customer_id (customers d))" and "cast_oid cid = Inr i"
  shows "customers (snd (delete_customer d uid cid)) =
           filter (\<lambda>c. \<not> target i uid c) (customers d)"
  using remove_first_distinct [OF assms(1), of i "\<lambda>c. user c = uid"] assms(2)
  by (simp add: delete_customer_def target_def [abs_def])

end
