(* ===== verification/Server.thy ===== *)
theory Server
  imports Credentials Customers
begin

text \<open>
  The Express application of \<open>src/backend/index.js\<close> as a whole: the configuration
  fixed at start-up (the bcrypt and HMAC primitives and \<open>JWT_SECRET\<close>), one request of
  each route as a constructor of \<open>request\<close>, and \<open>handle\<close>, which dispatches a request
  to its handler as \<open>app.post\<close>, \<open>app.get\<close>, \<open>app.put\<close> and \<open>app.delete\<close> do, running
  \<open>verifyToken\<close> first on the four customer routes (\<open>authenticated\<close>). Each request
  also sees the clock (\<open>now\<close>) and, for register, the salt that \<open>bcrypt.hash\<close> draws.
  Requests are handled one after another (\<open>run\<close>); the states the server can reach
  from an empty database are the inductive predicate \<open>reachable\<close>, and \<open>wf_db\<close> is
  the invariant they all satisfy: usernames unique and non-empty, ObjectIds unique in
  each collection and below the generator.
\<close>

record config =
  cfg_kdf :: kdf
  cfg_mac :: mac
  cfg_secret :: string

datatype request =
    Register string string
  | Login string string
  | PostCustomer "string option" string string
  | ReadCustomer "string option"
  | PutCustomer "string option" string string string
  | DeleteCustomer "string option" string

definition authenticated ::
  "config \<Rightarrow> seconds \<Rightarrow> string option \<Rightarrow> db \<Rightarrow> (oid \<Rightarrow> response \<times> db) \<Rightarrow> response \<times> db" where
  "authenticated cfg now hdr d h =
     (case verifyToken (cfg_mac cfg) (cfg_secret cfg) now hdr of
        Inl r \<Rightarrow> (r, d)
      | Inr uid \<Rightarrow> h uid)"

fun handle :: "config \<Rightarrow> seconds \<Rightarrow> string \<Rightarrow> db \<Rightarrow> request \<Rightarrow> response \<times> db" where
  "handle cfg now salt d (Register un pw) = register (cfg_kdf cfg) salt d un pw"
| "handle cfg now salt d (Login un pw) =
     (login (cfg_kdf cfg) (cfg_mac cfg) (cfg_secret cfg) now d un pw, d)"
| "handle cfg now salt d (PostCustomer hdr nm mt) =
     authenticated cfg now hdr d (\<lambda>uid. post_customer d uid nm mt)"
| "handle cfg now salt d (ReadCustomer hdr) =
     authenticated cfg now hdr d (\<lambda>uid. (get_readCustomer d uid, d))"
| "handle cfg now salt d (PutCustomer hdr cid nm mt) =
     authenticated cfg now hdr d (\<lambda>uid. put_customer d uid cid nm mt)"
| "handle cfg now salt d (DeleteCustomer hdr cid) =
     authenticated cfg now hdr d (\<lambda>uid. delete_customer d uid cid)"

text \<open>The \<open>Authorization\<close> header of a customer route; \<open>None\<close> for the two public routes.\<close>

fun req_header :: "request \<Rightarrow> string option option" where
  "req_header (PostCustomer hdr _ _) = Some hdr"
| "req_header (ReadCustomer hdr) = Some hdr"
| "req_header (PutCustomer hdr _ _ _) = Some hdr"
| "req_header (DeleteCustomer hdr _) = Some hdr"
| "req_header _ = None"

fun run :: "config \<Rightarrow> db \<Rightarrow> (seconds \<times> string \<times> request) list \<Rightarrow> response list \<times> db" where
  "run cfg d [] = ([], d)"
| "run cfg d ((now, salt, rq) # es) =
     (let (r, d') = handle cfg now salt d rq; (rs, d'') = run cfg d' es in (r # rs, d''))"

inductive reachable :: "config \<Rightarrow> db \<Rightarrow> bool" where
  init: "reachable cfg init_db"
| step: "reachable cfg d \<Longrightarrow> length salt = 22 \<Longrightarrow> handle cfg now salt d rq = (r, d') \<Longrightarrow>
         reachable cfg d'"

definition wf_db :: "db \<Rightarrow> bool" where
  "wf_db d \<longleftrightarrow>
     distinct (map username (users d)) \<and> list_all (\<lambda>u. username u \<noteq> []) (users d) \<and>
     distinct (map user_id (users d)) \<and> distinct (map customer_id (customers d)) \<and>
     list_all (\<lambda>u. user_id u < next_oid d) (users d) \<and>
     list_all (\<lambda>c. customer_id c < next_oid d) (customers d)"

subsection \<open>The middleware gate\<close>

lemma authenticated_Inl [simp]:
  "verifyToken (cfg_mac cfg) (cfg_secret cfg) now hdr = Inl r \<Longrightarrow>
   authenticated cfg now hdr d h = (r, d)"
  by (simp add: authenticated_def)

lemma authenticated_Inr [simp]:
  "verifyToken (cfg_mac cfg) (cfg_secret cfg) now hdr = Inr uid \<Longrightarrow>
   authenticated cfg now hdr d h = h uid"
  by (simp add: authenticated_def)


subsection \<open>The invariant\<close>

lemma wf_init: "wf_db init_db"
  by (simp add: wf_db_def init_db_def)

lemma list_all_less_mono:
  "list_all (\<lambda>x. f x < (n::nat)) xs \<Longrightarrow> list_all (\<lambda>x. f x < Suc n) xs"
  by (induction xs) auto

lemma list_all_less_not_in:
  "list_all (\<lambda>x. f x < (n::nat)) xs \<Longrightarrow> n \<notin> f ` set xs"
  by (induction xs) auto

lemma wf_save_user:
  assumes "wf_db d" and "save_user d un pw = Inr d'"
  shows "wf_db d'"
proof -
  have "un \<notin> set (map username (users d))" and "un \<noteq> []"
    and d': "d' = d\<lparr>users := users d @ [\<lparr>user_id = next_oid d, username = un, password = pw\<rparr>],
                   next_oid := Suc (next_oid d)\<rparr>"
    using assms(2) by (auto simp: save_user_Inr list_ex_iff)
  with assms(1) show ?thesis
    by (auto simp: wf_db_def list_all_less_mono list_all_less_not_in)
qed

lemma wf_register:
  assumes "wf_db d" and "register kdf salt d un pw = (r, d')"
  shows "wf_db d'"
  using register_cases [OF assms(2)]
proof
  assume "d' = d"
  with assms(1) show ?thesis by simp
next
  assume new: "\<not> list_ex (\<lambda>u. username u = un) (users d) \<and> un \<noteq> [] \<and>
    d' = d\<lparr>users := users d @ [\<lparr>user_id = next_oid d, username = un,
                                password = bcrypt_hash kdf salt pw\<rparr>],
           next_oid := Suc (next_oid d)\<rparr>"
  have "un \<notin> set (map username (users d))"
    using new by (auto simp: list_ex_iff)
  with assms(1) new show ?thesis
    by (auto simp: wf_db_def list_all_less_mono list_all_less_not_in)
qed

lemma wf_post_customer:
  "wf_db d \<Longrightarrow> wf_db (snd (post_customer d uid nm mt))"
  by (auto simp: wf_db_def post_customer_def save_customer_def list_all_less_mono
                 list_all_less_not_in split: sum.split)

lemma wf_put_customer:
  "wf_db d \<Longrightarrow> wf_db (snd (put_customer d uid cid nm mt))"
proof -
  assume wf: "wf_db d"
  have "set (update_first P (\<lambda>c. c\<lparr>name := nm, membershipType := mt\<rparr>) cs) \<subseteq>
          set cs \<union> (\<lambda>c. c\<lparr>name := nm, membershipType := mt\<rparr>) ` set cs" for P cs
    by (induction cs) auto
  then show ?thesis
    using wf by (fastforce simp: wf_db_def put_customer_def list_all_iff split: sum.split)
qed

lemma wf_delete_customer:
  "wf_db d \<Longrightarrow> wf_db (snd (delete_customer d uid cid))"
  using set_remove_first_subset
  by (fastforce simp: wf_db_def delete_customer_def list_all_iff distinct_map_remove_first
                split: sum.split)

lemma wf_handle:
  assumes "wf_db d" and "handle cfg now salt d rq = (r, d')"
  shows "wf_db d'"
proof (cases rq)
  case (Register un pw)
  with assms show ?thesis by (auto intro: wf_register)
next
  case (Login un pw)
  with assms show ?thesis by auto
next
  case (PostCustomer hdr nm mt)
  with assms wf_post_customer show ?thesis
    by (auto simp: authenticated_def split: sum.splits) (metis snd_conv)
next
  case (ReadCustomer hdr)
  with assms show ?thesis by (auto simp: authenticated_def split: sum.splits)
next
  case (PutCustomer hdr cid nm mt)
  with assms wf_put_customer show ?thesis
    by (auto simp: authenticated_def split: sum.splits) (metis snd_conv)
next
  case (DeleteCustomer hdr cid)
  with assms wf_delete_customer show ?thesis
    by (auto simp: authenticated_def split: sum.splits) (metis snd_conv)
qed

lemma reachable_handle:
  "reachable cfg d \<Longrightarrow> length salt = 22 \<Longrightarrow> reachable cfg (snd (handle cfg now salt d rq))"
  by (rule reachable.step [where r = "fst (handle cfg now salt d rq)"]) simp_all

lemma reachable_wf: "reachable cfg d \<Longrightarrow> wf_db d"
proof (induction rule: reachable.induct)
  case init
  show ?case by (rule wf_init)
next
  case (step d salt now rq r d')
  then show ?case by (blast intro: wf_handle)
qed

end
