(* ===== verification/Concurrency.thy ===== *)
theory Concurrency
  imports Server
begin

text \<open>
  Concurrent requests. Node runs the handlers of \<open>src/backend/index.js\<close> on one event
  loop and switches between requests at each \<open>await\<close>. The register handler
  (lines 53--74) awaits twice on the store: \<open>User.findOne({ username })\<close> and, after
  hashing, \<open>user.save()\<close>, so two registrations of the same name can both pass the
  check before either saves. Each in-flight registration is a \<open>task\<close> with the point it
  has reached; every other route makes one store call, on one document, after synchronous
  work (\<open>verifyToken\<close>, the cast), and runs as a single step (\<open>atomic\<close>). \<open>cstep\<close>
  is one step of the event loop: a registration arriving, a registration task moving on,
  or another request being handled. The \<open>unique\<close> index of \<open>UserSchema\<close> (in
  \<open>save_user\<close>) makes the later save throw, so the loser of the race gets 500, not 400;
  every database the interleavings produce is one sequential handling produces
  (\<open>concurrent_states_sequential\<close>).
\<close>

datatype task =
    Fresh string string
  | Checked string string
  | Done response

text \<open>
  The other routes touch the store once (\<open>findOne\<close>, \<open>save\<close>, \<open>find\<close>,
  \<open>findOneAndUpdate\<close>, \<open>findOneAndDelete\<close>: one document each, atomic in MongoDB)
  after synchronous work, so each runs as one step between the steps of other requests.
\<close>

fun is_register :: "request \<Rightarrow> bool" where
  "is_register (Register _ _) = True"
| "is_register _ = False"

record cstate =
  cdb :: db
  tasks :: "task list"

inductive cstep :: "config \<Rightarrow> cstate \<Rightarrow> cstate \<Rightarrow> bool" where
  spawn: "cstep cfg s (s\<lparr>tasks := tasks s @ [Fresh un pw]\<rparr>)"
| find_taken:
    "i < length (tasks s) \<Longrightarrow> tasks s ! i = Fresh un pw \<Longrightarrow>
     list_ex (\<lambda>u. username u = un) (users (cdb s)) \<Longrightarrow>
     cstep cfg s (s\<lparr>tasks := (tasks s)[i := Done (resp 400 (Message ''Username already exists''))]\<rparr>)"
| find_free:
    "i < length (tasks s) \<Longrightarrow> tasks s ! i = Fresh un pw \<Longrightarrow>
     \<not> list_ex (\<lambda>u. username u = un) (users (cdb s)) \<Longrightarrow>
     cstep cfg s (s\<lparr>tasks := (tasks s)[i := Checked un pw]\<rparr>)"
| save_fail:
    "i < length (tasks s) \<Longrightarrow> tasks s ! i = Checked un pw \<Longrightarrow> length salt = 22 \<Longrightarrow>
     save_user (cdb s) un (bcrypt_hash (cfg_kdf cfg) salt pw) = Inl e \<Longrightarrow>
     cstep cfg s (s\<lparr>tasks := (tasks s)[i := Done server_error]\<rparr>)"
| save_ok:
    "i < length (tasks s) \<Longrightarrow> tasks s ! i = Checked un pw \<Longrightarrow> length salt = 22 \<Longrightarrow>
     save_user (cdb s) un (bcrypt_hash (cfg_kdf cfg) salt pw) = Inr d' \<Longrightarrow>
     cstep cfg s (s\<lparr>cdb := d', tasks := (tasks s)[i := Done (resp 201 (Message ''User Registered Successfully''))]\<rparr>)"
| atomic:
    "\<not> is_register rq \<Longrightarrow> length salt = 22 \<Longrightarrow> handle cfg now salt (cdb s) rq = (r, d') \<Longrightarrow>
     cstep cfg s (s\<lparr>cdb := d', tasks := tasks s @ [Done r]\<rparr>)"

definition cinit :: cstate where
  "cinit = \<lparr>cdb = init_db, tasks = []\<rparr>"

subsection \<open>The invariant under every interleaving\<close>

lemma cstep_reachable: "cstep cfg s t \<Longrightarrow> reachable cfg (cdb s) \<Longrightarrow> reachable cfg (cdb t)"
proof (induction rule: cstep.induct)
  case (save_ok i s un pw salt cfg d')
  then have "\<not> list_ex (\<lambda>u. username u = un) (users (cdb s))"
    by (simp add: save_user_Inr)
  then have "handle cfg 0 salt (cdb s) (Register un pw) =
               (resp 201 (Message ''User Registered Successfully''), d')"
    using save_ok.hyps(4) by (simp add: register_def find_None_iff_list_ex [symmetric])
  with save_ok.prems save_ok.hyps(3) have "reachable cfg d'" by (rule reachable.step)
  then show ?case by simp
next
  case (atomic rq salt cfg now s r d')
  from atomic.prems atomic.hyps(2,3) have "reachable cfg d'" by (rule reachable.step)
  then show ?case by simp
qed simp_all

subsection \<open>Properties of concurrent registration\<close>

text \<open>
  C21. The check-then-save race: two registrations of the same free username that both
  pass \<open>User.findOne\<close> before either saves end with one 201 and one 500 "Server Error"
  (the unique index refuses the second save), not with the 400 "Username already
  exists" the spec promises for every used username; only the first user is stored.
\<close>

theorem register_race:
  assumes "\<not> list_ex (\<lambda>u. username u = un) (users d)" and "un \<noteq> []"
    and "length salt1 = 22" and "length (salt2 :: string) = 22"
  shows "(cstep cfg)\<^sup>*\<^sup>* \<lparr>cdb = d, tasks = [Fresh un pw1, Fresh un pw2]\<rparr>
           \<lparr>cdb = d\<lparr>users := users d @ [\<lparr>user_id = next_oid d, username = un,
                                         password = bcrypt_hash (cfg_kdf cfg) salt1 pw1\<rparr>],
                    next_oid := Suc (next_oid d)\<rparr>,
            tasks = [Done (resp 201 (Message ''User Registered Successfully'')), Done server_error]\<rparr>"
proof -
  let ?d' = "d\<lparr>users := users d @ [\<lparr>user_id = next_oid d, username = un,
                                    password = bcrypt_hash (cfg_kdf cfg) salt1 pw1\<rparr>],
              next_oid := Suc (next_oid d)\<rparr>"
  let ?ok = "Done (resp 201 (Message ''User Registered Successfully''))"
  let ?S0 = "\<lparr>cdb = d, tasks = [Fresh un pw1, Fresh un pw2]\<rparr>"
  let ?S1 = "\<lparr>cdb = d, tasks = [Checked un pw1, Fresh un pw2]\<rparr>"
  let ?S2 = "\<lparr>cdb = d, tasks = [Checked un pw1, Checked un pw2]\<rparr>"
  let ?S3 = "\<lparr>cdb = ?d', tasks = [?ok, Checked un pw2]\<rparr>"
  let ?S4 = "\<lparr>cdb = ?d', tasks = [?ok, Done server_error]\<rparr>"
  have 1: "cstep cfg ?S0 ?S1"
    using cstep.find_free [of 0 ?S0 un pw1 cfg] assms(1) by simp
  have 2: "cstep cfg ?S1 ?S2"
    using cstep.find_free [of 1 ?S1 un pw2 cfg] assms(1) by simp
  have "save_user d un (bcrypt_hash (cfg_kdf cfg) salt1 pw1) = Inr ?d'"
    using assms(1,2) by (simp add: save_user_Inr)
  then have 3: "cstep cfg ?S2 ?S3"
    using cstep.save_ok [of 0 ?S2 un pw1 salt1 cfg ?d'] assms(3) by simp
  have "save_user ?d' un (bcrypt_hash (cfg_kdf cfg) salt2 pw2) = Inl DuplicateKeyError"
    using assms(2) by (simp add: save_user_def required_ok_def)
  then have 4: "cstep cfg ?S3 ?S4"
    using cstep.save_fail [of 1 ?S3 un pw2 salt2 cfg DuplicateKeyError] assms(4) by simp
  from 1 2 3 4 show ?thesis
    by (meson converse_rtranclp_into_rtranclp rtranclp.rtrancl_refl)
qed

theorem register_race_witness:
  "(cstep \<lparr>cfg_kdf = \<lambda>s p. p, cfg_mac = \<lambda>k m. m, cfg_secret = []\<rparr>)\<^sup>*\<^sup>* \<lparr>cdb = init_db, tasks = [Fresh ''alice'' ''pw1'', Fresh ''alice'' ''pw2'']\<rparr>
     \<lparr>cdb = \<lparr>users = [\<lparr>user_id = 0, username = ''alice'',
                          password = bcrypt_hash (\<lambda>s p. p) (replicate 22 CHR ''a'') ''pw1''\<rparr>],
             customers = [], next_oid = 1\<rparr>,
      tasks = [Done (resp 201 (Message ''User Registered Successfully'')), Done server_error]\<rparr>"
  using register_race [of "''alice''" init_db "replicate 22 CHR ''a''" "replicate 22 CHR ''a''"
                       "\<lparr>cfg_kdf = \<lambda>s p. p, cfg_mac = \<lambda>k m. m, cfg_secret = []\<rparr>" "''pw1''" "''pw2''"]
  by (simp add: init_db_def)

text \<open>
  C22. Concurrency adds no database states: whatever the interleaving of concurrent
  requests (registrations split at their \<open>await\<close>s, the other routes as single steps),
  the database is one that some sequence of requests handled one at a time produces.
  So every invariant of the sequential server (theory \<open>Server\<close>: unique, non-empty
  usernames, unique ObjectIds) holds under concurrency; the race changes responses only.
\<close>

theorem concurrent_states_sequential:
  assumes "(cstep cfg)\<^sup>*\<^sup>* cinit s"
  shows "reachable cfg (cdb s)"
  using assms
proof (induction rule: rtranclp_induct)
  case base
  show ?case by (simp add: cinit_def reachable.init)
next
  case (step t u)
  from step.hyps(2) step.IH show ?case by (rule cstep_reachable)
qed

theorem concurrent_states_sequential_witness:
  "reachable \<lparr>cfg_kdf = \<lambda>s p. p, cfg_mac = \<lambda>k m. m, cfg_secret = []\<rparr>
     \<lparr>users = [\<lparr>user_id = 0, username = ''alice'',
                   password = bcrypt_hash (\<lambda>s p. p) (replicate 22 CHR ''a'') ''pw1''\<rparr>],
        customers = [], next_oid = 1\<rparr>"
proof -
  let ?c = "\<lparr>cfg_kdf = \<lambda>s p. p, cfg_mac = \<lambda>k m. m, cfg_secret = []\<rparr>"
  let ?S1 = "\<lparr>cdb = init_db, tasks = [Fresh ''alice'' ''pw1'']\<rparr>"
  let ?S2 = "\<lparr>cdb = init_db, tasks = [Checked ''alice'' ''pw1'']\<rparr>"
  let ?d = "\<lparr>users = [\<lparr>user_id = 0, username = ''alice'',
                   password = bcrypt_hash (\<lambda>s p. p) (replicate 22 CHR ''a'') ''pw1''\<rparr>],
        customers = [], next_oid = 1\<rparr>"
  let ?S3 = "\<lparr>cdb = ?d, tasks = [Done (resp 201 (Message ''User Registered Successfully''))]\<rparr>"
  have 1: "cstep ?c cinit ?S1"
    using cstep.spawn [of ?c cinit "''alice''" "''pw1''"] by (simp add: cinit_def)
  have 2: "cstep ?c ?S1 ?S2"
    using cstep.find_free [of 0 ?S1 "''alice''" "''pw1''" ?c] by (simp add: init_db_def)
  have "save_user init_db ''alice'' (bcrypt_hash (cfg_kdf ?c) (replicate 22 CHR ''a'') ''pw1'') = Inr ?d"
    by (simp add: save_user_Inr init_db_def)
  then have 3: "cstep ?c ?S2 ?S3"
    using cstep.save_ok [of 0 ?S2 "''alice''" "''pw1''" "replicate 22 CHR ''a''" ?c ?d] by simp
  from 1 2 3 have "(cstep ?c)\<^sup>*\<^sup>* cinit ?S3"
    by (meson converse_rtranclp_into_rtranclp rtranclp.rtrancl_refl)
  from concurrent_states_sequential [OF this] show ?thesis by simp
qed

end
