(* ===== verification/Frontend.thy ===== *)
theory Frontend
  imports Server
begin

text \<open>
  The React front end of \<open>src/frontend/src\<close>: the login form (\<open>Login.jsx\<close>) and the
  dashboard (\<open>Dashboard.jsx\<close>), as the state their \<open>useState\<close> hooks hold and one
  function per handler. A handler that calls \<open>fetch\<close> is split at its \<open>await\<close>: the
  request it sends (a \<open>request\<close> of theory \<open>Server\<close>) and the continuation that reads
  the response (\<open>None\<close> when \<open>fetch\<close> itself rejects, a network error). The body goes
  through \<open>response.json()\<close>, which throws on the plain-text bodies of \<open>verifyToken\<close>
  (\<open>json_of_body\<close> is then \<open>None\<close>); every throw lands in the handler's \<open>catch\<close>.
  JavaScript values the handlers pass on unparsed (\<open>data.message\<close>, \<open>data.token\<close>, the
  token prop, \<open>editingId\<close>) are \<open>jsv\<close>: a string, \<open>null\<close> or \<open>undefined\<close>.
  The effects on the parent component (\<open>setToken\<close> with \<open>navigate\<close>) are returned as
  \<open>nav_effect\<close>. \<open>dash_event\<close> composes the dashboard with the server: one user
  event, the request it sends handled by \<open>handle\<close>, and the \<open>fetchCustomers()\<close>
  refresh a successful change starts; \<open>login_step\<close> does the same for the login page, and
  \<open>login_run\<close> and \<open>dash_run\<close> run a page's events until one navigates away.
\<close>

datatype jsv = JNull | JUndefined | JStr string

text \<open>Template-literal interpolation \<open>${v}\<close>.\<close>

fun js_str :: "jsv \<Rightarrow> string" where
  "js_str JNull = ''null''"
| "js_str JUndefined = ''undefined''"
| "js_str (JStr s) = s"

text \<open>Truthiness, as \<open>editingId ? ... : ...\<close> and \<open>{message && ...}\<close> test it.\<close>

fun truthy :: "jsv \<Rightarrow> bool" where
  "truthy (JStr s) = (s \<noteq> [])"
| "truthy _ = False"

text \<open>
  The value \<open>response.json()\<close> resolves to: an array of customers (\<open>res.json(customers)\<close>)
  or an object with the fields \<open>message\<close> and \<open>token\<close> the server may send.
\<close>

datatype json = JArray "customer_doc list" | JObject "string option" "string option"

definition json_of_body :: "body \<Rightarrow> json option" where
  "json_of_body b =
     (case b of
        Message m \<Rightarrow> Some (JObject (Some m) None)
      | TokenBody t \<Rightarrow> Some (JObject None (Some t))
      | CustomerList cs \<Rightarrow> Some (JArray cs)
      | Text _ \<Rightarrow> None)"

fun json_message :: "json \<Rightarrow> jsv" where
  "json_message (JObject (Some m) _) = JStr m"
| "json_message _ = JUndefined"

fun json_token :: "json \<Rightarrow> jsv" where
  "json_token (JObject _ (Some t)) = JStr t"
| "json_token _ = JUndefined"

text \<open>\<open>response.ok\<close>: a status in 200--299.\<close>

definition response_ok :: "response \<Rightarrow> bool" where
  "response_ok r \<longleftrightarrow> 200 \<le> status r \<and> status r < 300"

datatype nav_effect = Stay | ToDashboard jsv | ToLogin | ToRegister

text \<open>What \<open>{message && <p>{message}</p>}\<close> shows (\<open>Login.jsx\<close> line 53, \<open>Dashboard.jsx\<close> line 140).\<close>

definition message_view :: "jsv \<Rightarrow> string option" where
  "message_view m = (if truthy m then Some (js_str m) else None)"

subsection \<open>\<open>Login.jsx\<close>\<close>

record login_st =
  l_username :: string
  l_password :: string
  l_message :: jsv

definition login_init :: login_st where
  "login_init = \<lparr>l_username = [], l_password = [], l_message = JStr []\<rparr>"

definition login_request :: "login_st \<Rightarrow> request" where
  "login_request st = Login (l_username st) (l_password st)"

definition login_response :: "login_st \<Rightarrow> response option \<Rightarrow> login_st \<times> nav_effect" where
  "login_response st res =
     (case res of
        None \<Rightarrow> (st\<lparr>l_message := JStr ''Server Error''\<rparr>, Stay)
      | Some r \<Rightarrow>
          (case json_of_body (body r) of
             None \<Rightarrow> (st\<lparr>l_message := JStr ''Server Error''\<rparr>, Stay)
           | Some data \<Rightarrow>
               if response_ok r then (st, ToDashboard (json_token data))
               else (st\<lparr>l_message := json_message data\<rparr>, Stay)))"

text \<open>
  Submitting the form against the server: the browser submits only when both
  \<open>required\<close> inputs are non-empty (lines 42, 49); \<open>handleSubmit\<close>'s request is then
  handled by \<open>handle\<close>.
\<close>

definition login_submit ::
  "config \<Rightarrow> seconds \<Rightarrow> string \<Rightarrow> db \<Rightarrow> login_st \<Rightarrow> (login_st \<times> nav_effect) \<times> db" where
  "login_submit cfg now salt d st =
     (if l_username st = [] \<or> l_password st = [] then ((st, Stay), d)
      else let (r, d') = handle cfg now salt d (login_request st) in (login_response st (Some r), d'))"

text \<open>
  The events of the login page: typing into the two inputs (\<open>onChange\<close>, lines 41 and 48),
  submitting the form, and following the \<open>Register\<close> link (line 54). A login session
  runs its events, each at its time, until one navigates away.
\<close>

datatype login_event = SetUsername string | SetPassword string | SubmitLogin | RegisterLink

fun login_step ::
  "config \<Rightarrow> seconds \<Rightarrow> string \<Rightarrow> db \<Rightarrow> login_st \<Rightarrow> login_event \<Rightarrow> (login_st \<times> nav_effect) \<times> db" where
  "login_step cfg now salt d st (SetUsername v) = ((st\<lparr>l_username := v\<rparr>, Stay), d)"
| "login_step cfg now salt d st (SetPassword v) = ((st\<lparr>l_password := v\<rparr>, Stay), d)"
| "login_step cfg now salt d st SubmitLogin = login_submit cfg now salt d st"
| "login_step cfg now salt d st RegisterLink = ((st, ToRegister), d)"

fun login_run ::
  "config \<Rightarrow> string \<Rightarrow> db \<Rightarrow> login_st \<Rightarrow> (seconds \<times> login_event) list \<Rightarrow>
   db \<times> login_st \<times> nav_effect" where
  "login_run cfg salt d st [] = (d, st, Stay)"
| "login_run cfg salt d st ((now, ev) # evs) =
     (case login_step cfg now salt d st ev of
        ((st', Stay), d') \<Rightarrow> login_run cfg salt d' st' evs
      | ((st', e), d') \<Rightarrow> (d', st', e))"

subsection \<open>\<open>Dashboard.jsx\<close>\<close>

record dash_st =
  dash_customers :: json
  dash_name :: string
  dash_mt :: string
  editingId :: jsv
  dash_message :: jsv

definition dash_init :: dash_st where
  "dash_init = \<lparr>dash_customers = JArray [], dash_name = [], dash_mt = [], editingId = JNull,
                dash_message = JStr []\<rparr>"

definition auth_header :: "jsv \<Rightarrow> string option" where
  "auth_header tok = Some (bearer_prefix @ js_str tok)"

definition fetchCustomers_response :: "dash_st \<Rightarrow> response option \<Rightarrow> dash_st" where
  "fetchCustomers_response st res =
     (case res of
        None \<Rightarrow> st\<lparr>dash_message := JStr ''Server Error''\<rparr>
      | Some r \<Rightarrow>
          if response_ok r then
            (case json_of_body (body r) of
               None \<Rightarrow> st\<lparr>dash_message := JStr ''Server Error''\<rparr>
             | Some data \<Rightarrow> st\<lparr>dash_customers := data\<rparr>)
          else st\<lparr>dash_message := JStr ''Failed to fetch customers''\<rparr>)"

text \<open>
  The continuations of \<open>handleAdd\<close>, \<open>handleUpdate\<close> and \<open>handleDelete\<close>; the flag
  says whether the handler goes on to call \<open>fetchCustomers()\<close>.
\<close>

definition handleAdd_response :: "dash_st \<Rightarrow> response option \<Rightarrow> dash_st \<times> bool" where
  "handleAdd_response st res =
     (case res of
        None \<Rightarrow> (st\<lparr>dash_message := JStr ''Server Error''\<rparr>, False)
      | Some r \<Rightarrow>
          (case json_of_body (body r) of
             None \<Rightarrow> (st\<lparr>dash_message := JStr ''Server Error''\<rparr>, False)
           | Some data \<Rightarrow>
               if response_ok r then
                 (st\<lparr>dash_message := JStr ''Customer Added Successfully'', dash_name := [],
                     dash_mt := []\<rparr>, True)
               else (st\<lparr>dash_message := json_message data\<rparr>, False)))"

definition handleEdit :: "dash_st \<Rightarrow> customer_doc \<Rightarrow> dash_st" where
  "handleEdit st c =
     st\<lparr>dash_name := name c, dash_mt := membershipType c,
        editingId := JStr (oid_hex (customer_id c))\<rparr>"

definition handleUpdate_response :: "dash_st \<Rightarrow> response option \<Rightarrow> dash_st \<times> bool" where
  "handleUpdate_response st res =
     (case res of
        None \<Rightarrow> (st\<lparr>dash_message := JStr ''Server Error''\<rparr>, False)
      | Some r \<Rightarrow>
          (case json_of_body (body r) of
             None \<Rightarrow> (st\<lparr>dash_message := JStr ''Server Error''\<rparr>, False)
           | Some data \<Rightarrow>
               if response_ok r then
                 (st\<lparr>dash_message := JStr ''Customer Updated Successfully'', dash_name := [],
                     dash_mt := [], editingId := JNull\<rparr>, True)
               else (st\<lparr>dash_message := json_message data\<rparr>, False)))"

definition handleDelete_response :: "dash_st \<Rightarrow> response option \<Rightarrow> dash_st \<times> bool" where
  "handleDelete_response st res =
     (case res of
        None \<Rightarrow> (st\<lparr>dash_message := JStr ''Server Error''\<rparr>, False)
      | Some r \<Rightarrow>
          (case json_of_body (body r) of
             None \<Rightarrow> (st\<lparr>dash_message := JStr ''Server Error''\<rparr>, False)
           | Some data \<Rightarrow>
               if response_ok r then (st\<lparr>dash_message := JStr ''Customer Deleted Successfully''\<rparr>, True)
               else (st\<lparr>dash_message := json_message data\<rparr>, False)))"

text \<open>The Cancel button of line 138.\<close>

definition handleCancel :: "dash_st \<Rightarrow> dash_st" where
  "handleCancel st = st\<lparr>editingId := JNull, dash_name := [], dash_mt := []\<rparr>"

text \<open>The user events of the dashboard: mounting (\<open>useEffect\<close>), the form's submit,
  and the buttons. The form submits only when both \<open>required\<close> inputs are
  non-empty (lines 128, 135), and then to \<open>handleUpdate\<close> or \<open>handleAdd\<close> (line 122);
  \<open>Logout\<close> is \<open>handleLogout\<close>, \<open>setToken(null)\<close> and the way back to the login page.\<close>

datatype ui_event = Mount | TypeName string | TypeMt string | Submit | Edit customer_doc | Cancel
  | Delete jsv | Logout

definition dash_fetch :: "config \<Rightarrow> seconds \<Rightarrow> string \<Rightarrow> jsv \<Rightarrow> db \<Rightarrow> dash_st \<Rightarrow> db \<times> dash_st" where
  "dash_fetch cfg now salt tok d st =
     (let (r, d') = handle cfg now salt d (ReadCustomer (auth_header tok))
      in (d', fetchCustomers_response st (Some r)))"

definition dash_then_fetch ::
  "config \<Rightarrow> seconds \<Rightarrow> string \<Rightarrow> jsv \<Rightarrow> db \<Rightarrow> dash_st \<times> bool \<Rightarrow> db \<times> dash_st" where
  "dash_then_fetch cfg now salt tok d k =
     (if snd k then dash_fetch cfg now salt tok d (fst k) else (d, fst k))"

fun dash_event ::
  "config \<Rightarrow> seconds \<Rightarrow> string \<Rightarrow> jsv \<Rightarrow> db \<Rightarrow> dash_st \<Rightarrow> ui_event \<Rightarrow>
   (db \<times> dash_st) \<times> nav_effect" where
  "dash_event cfg now salt tok d st Mount = (dash_fetch cfg now salt tok d st, Stay)"
| "dash_event cfg now salt tok d st (TypeName v) = ((d, st\<lparr>dash_name := v\<rparr>), Stay)"
| "dash_event cfg now salt tok d st (TypeMt v) = ((d, st\<lparr>dash_mt := v\<rparr>), Stay)"
| "dash_event cfg now salt tok d st Submit =
     (if dash_name st = [] \<or> dash_mt st = [] then ((d, st), Stay)
      else if truthy (editingId st) then
        (let (r, d') = handle cfg now salt d
                         (PutCustomer (auth_header tok) (js_str (editingId st)) (dash_name st) (dash_mt st))
         in (dash_then_fetch cfg now salt tok d' (handleUpdate_response st (Some r)), Stay))
      else
        (let (r, d') = handle cfg now salt d (PostCustomer (auth_header tok) (dash_name st) (dash_mt st))
         in (dash_then_fetch cfg now salt tok d' (handleAdd_response st (Some r)), Stay)))"
| "dash_event cfg now salt tok d st (Edit c) = ((d, handleEdit st c), Stay)"
| "dash_event cfg now salt tok d st Cancel = ((d, handleCancel st), Stay)"
| "dash_event cfg now salt tok d st (Delete i) =
     (let (r, d') = handle cfg now salt d (DeleteCustomer (auth_header tok) (js_str i))
      in (dash_then_fetch cfg now salt tok d' (handleDelete_response st (Some r)), Stay))"
| "dash_event cfg now salt tok d st Logout = ((d, st), ToLogin)"

text \<open>
  A dashboard session: the events of one mounted dashboard with a fixed token prop, each
  at its time; it ends when an event navigates away (\<open>handleLogout\<close>).
\<close>

fun dash_run ::
  "config \<Rightarrow> string \<Rightarrow> jsv \<Rightarrow> db \<Rightarrow> dash_st \<Rightarrow> (seconds \<times> ui_event) list \<Rightarrow>
   db \<times> dash_st \<times> nav_effect" where
  "dash_run cfg salt tok d st [] = (d, st, Stay)"
| "dash_run cfg salt tok d st ((now, ev) # evs) =
     (case dash_event cfg now salt tok d st ev of
        ((d', st'), Stay) \<Rightarrow> dash_run cfg salt tok d' st' evs
      | ((d', st'), e) \<Rightarrow> (d', st', e))"

text \<open>The list can be rendered: \<open>customers.map\<close> (line 143) needs an array.\<close>

fun renders_list :: "json \<Rightarrow> bool" where
  "renders_list (JArray _) = True"
| "renders_list (JObject _ _) = False"

text \<open>The list on screen holds only records of the user \<open>uid\<close>.\<close>

fun displays_only :: "oid \<Rightarrow> json \<Rightarrow> bool" where
  "displays_only uid (JArray cs) = list_all (owned uid) cs"
| "displays_only uid (JObject _ _) = True"


subsection \<open>Shared facts: the server seen from the client\<close>

lemma oid_hex_ne [simp]: "oid_hex i \<noteq> []"
proof -
  have "length (oid_hex i) = 24" by (simp add: oid_hex_def)
  then show ?thesis by auto
qed

lemma verifyToken_Inl_unparsed:
  "verifyToken mac key now hdr = Inl r \<Longrightarrow> json_of_body (body r) = None \<and> \<not> response_ok r"
  by (auto simp: verifyToken_def json_of_body_def response_ok_def split: option.splits if_splits sum.splits)

lemma auth_header_sign:
  "mac_base64url mac \<Longrightarrow>
   verifyToken mac key now (auth_header (JStr (jwt_sign mac key t uid))) =
     (if t + token_lifetime \<le> now then Inl (resp 401 (Text ''Invalid Token'')) else Inr uid)"
  by (simp add: auth_header_def verifyToken_bearer_sign)

lemma dash_fetch_accepted:
  "verifyToken (cfg_mac cfg) (cfg_secret cfg) now (auth_header tok) = Inr uid \<Longrightarrow>
   dash_fetch cfg now salt tok d st =
     (d, st\<lparr>dash_customers := JArray (filter (owned uid) (customers d))\<rparr>)"
  by (simp add: dash_fetch_def fetchCustomers_response_def get_readCustomer_def json_of_body_def
      response_ok_def)

lemma dash_fetch_rejected:
  "verifyToken (cfg_mac cfg) (cfg_secret cfg) now (auth_header tok) = Inl r \<Longrightarrow>
   dash_fetch cfg now salt tok d st = (d, st\<lparr>dash_message := JStr ''Failed to fetch customers''\<rparr>)"
  using verifyToken_Inl_unparsed [of "cfg_mac cfg" "cfg_secret cfg" now "auth_header tok" r]
  by (simp add: dash_fetch_def fetchCustomers_response_def)

subsection \<open>Login sessions\<close>

lemma login_submit_db: "snd (login_submit cfg now salt d st) = d"
  by (simp add: login_submit_def login_request_def split_def)

lemma login_step_db: "snd (login_step cfg now salt d st ev) = d"
  by (cases ev) (simp_all add: login_submit_db)

text \<open>The login page reads the database and never writes it; in particular it never registers.\<close>

lemma login_run_db: "fst (login_run cfg salt d st evs) = d"
proof (induction evs arbitrary: st)
  case (Cons e evs)
  obtain now ev where e: "e = (now, ev)" by (cases e)
  obtain st' nv where l: "login_step cfg now salt d st ev = ((st', nv), d)"
    using login_step_db [of cfg now salt d st ev] by (metis prod.collapse)
  show ?case using Cons.IH by (cases nv) (simp_all add: e l)
qed simp

lemma login_run_typed:
  "login_run cfg salt d st ((t0, SetUsername un) # (t1, SetPassword pw) # (t, SubmitLogin) # evs) =
     (case login_submit cfg t salt d (st\<lparr>l_username := un, l_password := pw\<rparr>) of
        ((st', Stay), d') \<Rightarrow> login_run cfg salt d' st' evs
      | ((st', e), d') \<Rightarrow> (d', st', e))"
  by simp

subsection \<open>Dashboard sessions\<close>

lemma response_keeps_customers [simp]:
  "dash_customers (fst (handleAdd_response st res)) = dash_customers st"
  "dash_customers (fst (handleUpdate_response st res)) = dash_customers st"
  "dash_customers (fst (handleDelete_response st res)) = dash_customers st"
  by (simp_all add: handleAdd_response_def handleUpdate_response_def handleDelete_response_def
      split: option.split)

subsection \<open>Properties of the front end\<close>

text \<open>
  C23. End to end: a user who types a registered username and the right password into the
  login form and submits it is sent to the dashboard with the token the server signed for
  their id, and the dashboard, mounted with that token within the hour, lists exactly that
  user's customers; neither page changes the database.
\<close>

theorem login_then_dashboard:
  assumes "mac_base64url (cfg_mac cfg)"
    and "un \<noteq> []" and "pw \<noteq> []"
    and "find (\<lambda>u. username u = un) (users d) = Some u"
    and "bcrypt_compare (cfg_kdf cfg) pw (password u)"
    and "now < t + token_lifetime"
  shows "login_run cfg salt d login_init [(t0, SetUsername un), (t1, SetPassword pw), (t, SubmitLogin)] =
           (d, login_init\<lparr>l_username := un, l_password := pw\<rparr>,
            ToDashboard (JStr (jwt_sign (cfg_mac cfg) (cfg_secret cfg) t (user_id u)))) \<and>
         dash_event cfg now salt (JStr (jwt_sign (cfg_mac cfg) (cfg_secret cfg) t (user_id u))) d
           dash_init Mount =
           ((d, dash_init\<lparr>dash_customers := JArray (filter (owned (user_id u)) (customers d))\<rparr>), Stay)"
proof -
  let ?st = "login_init\<lparr>l_username := un, l_password := pw\<rparr>"
  have "login_submit cfg t salt d ?st =
          ((?st, ToDashboard (JStr (jwt_sign (cfg_mac cfg) (cfg_secret cfg) t (user_id u)))), d)"
    using assms(2-5) by (simp add: login_submit_def login_request_def login_known login_response_def
        json_of_body_def response_ok_def)
  then have "login_run cfg salt d login_init [(t0, SetUsername un), (t1, SetPassword pw), (t, SubmitLogin)] =
           (d, ?st, ToDashboard (JStr (jwt_sign (cfg_mac cfg) (cfg_secret cfg) t (user_id u))))"
    by (simp only: login_run_typed) simp
  moreover have "verifyToken (cfg_mac cfg) (cfg_secret cfg) now
                   (auth_header (JStr (jwt_sign (cfg_mac cfg) (cfg_secret cfg) t (user_id u)))) =
                 Inr (user_id u)"
    using auth_header_sign [OF assms(1)] assms(6) by simp
  ultimately show ?thesis by (simp add: dash_fetch_accepted)
qed

text \<open>
  C24. A failed login keeps the user on the login form and shows the server's message:
  ''Invaild Credentials'' (sic) for an unknown username and ''Invalid Credentials'' for a wrong
  password, so the page tells the two apart; the database is unchanged.
\<close>

theorem login_failure_message:
  assumes "l_username st \<noteq> []" and "l_password st \<noteq> []"
    and "\<forall>u. find (\<lambda>u. username u = l_username st) (users d) = Some u \<longrightarrow>
             \<not> bcrypt_compare (cfg_kdf cfg) (l_password st) (password u)"
  shows "login_submit cfg t salt d st =
           ((st\<lparr>l_message := JStr (if list_ex (\<lambda>u. username u = l_username st) (users d)
                                    then ''Invalid Credentials'' else ''Invaild Credentials'')\<rparr>, Stay), d)"
proof (cases "find (\<lambda>u. username u = l_username st) (users d)")
  case None
  moreover have "\<not> list_ex (\<lambda>u. username u = l_username st) (users d)"
    using None by (simp add: find_None_iff_list_ex)
  ultimately show ?thesis
    using assms(1,2) by (simp add: login_submit_def login_request_def login_def login_response_def
        json_of_body_def response_ok_def)
next
  case (Some u)
  with assms show ?thesis
    by (simp add: login_submit_def login_request_def login_def login_response_def json_of_body_def
        response_ok_def find_Some_list_ex)
qed

text \<open>
  C25. When the token is rejected (missing, malformed or expired), the dashboard changes
  nothing in the database and only sets its message: ''Failed to fetch customers'' on a refresh,
  and ''Server Error'' on add, update and delete, because \<open>response.json()\<close> throws on the
  plain-text 401/403 body and the catch reports a server error instead of the expired session.
\<close>

theorem rejected_session_messages:
  assumes "verifyToken (cfg_mac cfg) (cfg_secret cfg) now (auth_header tok) = Inl r"
    and "ev = Mount \<or> (ev = Submit \<and> dash_name st \<noteq> [] \<and> dash_mt st \<noteq> []) \<or> ev = Delete i"
  shows "dash_event cfg now salt tok d st ev =
           ((d, st\<lparr>dash_message := JStr (if ev = Mount then ''Failed to fetch customers''
                                        else ''Server Error'')\<rparr>), Stay)"
  using assms(2) verifyToken_Inl_unparsed [OF assms(1)] assms(1)
  by (auto simp: dash_fetch_rejected dash_then_fetch_def handleAdd_response_def
      handleUpdate_response_def handleDelete_response_def)

text \<open>
  C26. Editing: after Edit on a customer (whose id, as every stored id, is an ObjectId
  value) and a submit with non-empty fields and an accepted token, the server updates that customer of the user's (by its id, if the user owns
  it), the form returns to add mode with empty fields and the success message, and the refreshed
  list is the user's list with that record's fields replaced.
\<close>

theorem edit_then_submit:
  assumes "verifyToken (cfg_mac cfg) (cfg_secret cfg) now (auth_header tok) = Inr uid"
    and "distinct (map customer_id (customers d))" and "customer_id c < 2 ^ 96"
    and "nm \<noteq> []" and "mt \<noteq> []"
    and "dash_event cfg now salt tok d ((handleEdit st c)\<lparr>dash_name := nm, dash_mt := mt\<rparr>) Submit =
           ((d', st'), e)"
  shows "customers d' =
           map (\<lambda>c'. if target (customer_id c) uid c' then c'\<lparr>name := nm, membershipType := mt\<rparr> else c')
             (customers d) \<and>
         dash_customers st' =
           JArray (map (\<lambda>c'. if customer_id c' = customer_id c then c'\<lparr>name := nm, membershipType := mt\<rparr>
                             else c') (filter (owned uid) (customers d))) \<and>
         editingId st' = JNull \<and> dash_name st' = [] \<and> dash_mt st' = [] \<and>
         dash_message st' = JStr ''Customer Updated Successfully'' \<and> e = Stay"
proof -
  obtain d1 where put: "put_customer d uid (oid_hex (customer_id c)) nm mt =
               (resp 200 (Message ''Customer Updated Successfully''), d1)"
    using assms(3) by (simp add: put_customer_def)
  have d1: "customers d1 =
           map (\<lambda>c'. if target (customer_id c) uid c' then c'\<lparr>name := nm, membershipType := mt\<rparr> else c')
             (customers d)"
    using put_customer_distinct [OF assms(2) cast_oid_oid_hex [OF assms(3)], of uid nm mt] put by simp
  have "dash_event cfg now salt tok d ((handleEdit st c)\<lparr>dash_name := nm, dash_mt := mt\<rparr>) Submit =
          ((d1, (handleEdit st c)\<lparr>dash_customers := JArray (filter (owned uid) (customers d1)),
               dash_name := [], dash_mt := [], editingId := JNull,
               dash_message := JStr ''Customer Updated Successfully''\<rparr>), Stay)"
    using assms(1,4,5) put
    by (simp add: handleEdit_def dash_then_fetch_def handleUpdate_response_def json_of_body_def
        response_ok_def dash_fetch_accepted)
  with assms(6) d1 show ?thesis
    by (simp add: filter_owned_update)
qed

text \<open>
  C27. Adding: in add mode with an accepted token, a submit with both fields filled creates
  the customer for the user, clears the form, shows the success message and lists the user's
  customers including the new one; with a field empty the browser's required check stops the
  submit and nothing happens.
\<close>

theorem add_submit:
  assumes "verifyToken (cfg_mac cfg) (cfg_secret cfg) now (auth_header tok) = Inr uid"
    and "\<not> truthy (editingId st)"
    and "dash_event cfg now salt tok d st Submit = ((d', st'), e)"
  shows "e = Stay \<and>
         (if dash_name st = [] \<or> dash_mt st = [] then d' = d \<and> st' = st
          else customers d' = customers d @ [\<lparr>customer_id = next_oid d, name = dash_name st,
                                          membershipType = dash_mt st, user = uid\<rparr>] \<and>
               dash_customers st' = JArray (filter (owned uid) (customers d')) \<and>
               dash_name st' = [] \<and> dash_mt st' = [] \<and>
               dash_message st' = JStr ''Customer Added Successfully'')"
  using assms
  by (auto simp: post_customer_ok dash_then_fetch_def handleAdd_response_def json_of_body_def
      response_ok_def dash_fetch_accepted)

end
