(* ===== verification/Async.thy ===== *)
theory Async
  imports Frontend "HOL-Library.Multiset"
begin

text \<open>
  The dashboard with its requests in flight. \<open>dash_event\<close> (theory \<open>Frontend\<close>) runs a
  handler to its end before the next event: the response of each \<open>fetch\<close> is back before
  the user acts again. The browser does not wait. Every handler of \<open>Dashboard.jsx\<close>
  returns to the event loop at its \<open>await fetch(...)\<close>; the request then reaches the
  server, the server answers, and the continuation runs, each at a time of its own, and
  requests sent one after the other may be served and answered in either order.
  \<^item> A message in flight is a request not yet served (\<open>Req\<close>) or a response not yet
    delivered (\<open>Resp\<close>), tagged with the continuation that awaits it (\<open>cont\<close>); the
    messages in flight form a multiset, as in asynchronous system models.
  \<^item> \<open>dash_send\<close> is the synchronous part of a user event: the state it sets and the
    request its handler sends before its first \<open>await\<close>. \<open>dash_deliver\<close> is the
    continuation on a response: the \<open>*_response\<close> functions of \<open>Frontend\<close>, and the
    \<open>fetchCustomers()\<close> call a successful change makes, which sends a new request.
  \<^item> \<open>astep\<close> is one step of the event loop: a user event, the server handling a
    request (\<open>handle\<close>, one step each, as in theory \<open>Concurrency\<close>), a network failure
    (the \<open>fetch\<close> rejects, before or after the server handled it), or a delivery. After
    logout the component is unmounted: continuations still run and still call
    \<open>fetchCustomers()\<close>, but their state updates are discarded.
  The lemmas show that the list on screen holds only the user's records under every
  schedule, and that the loop settles once the user stops.
\<close>

datatype cont = KFetch | KAdd | KUpdate | KDelete

datatype msg = Req cont request | Resp cont "response option"

record astate =
  adb :: db
  adash :: dash_st
  inflight :: "msg multiset"
  amounted :: bool

definition fetch_req :: "jsv \<Rightarrow> msg" where
  "fetch_req tok = Req KFetch (ReadCustomer (auth_header tok))"

definition refresh :: "jsv \<Rightarrow> bool \<Rightarrow> msg multiset" where
  "refresh tok b = (if b then {#fetch_req tok#} else {#})"

text \<open>Mounting: the initial state of the hooks and the \<open>useEffect\<close> fetch (lines 6--15).\<close>

definition ainit :: "jsv \<Rightarrow> db \<Rightarrow> astate" where
  "ainit tok d = \<lparr>adb = d, adash = dash_init, inflight = {#fetch_req tok#}, amounted = True\<rparr>"

fun dash_send :: "jsv \<Rightarrow> dash_st \<Rightarrow> ui_event \<Rightarrow> dash_st \<times> msg multiset \<times> nav_effect" where
  "dash_send tok st Mount = (st, {#fetch_req tok#}, Stay)"
| "dash_send tok st (TypeName v) = (st\<lparr>dash_name := v\<rparr>, {#}, Stay)"
| "dash_send tok st (TypeMt v) = (st\<lparr>dash_mt := v\<rparr>, {#}, Stay)"
| "dash_send tok st Submit =
     (if dash_name st = [] \<or> dash_mt st = [] then (st, {#}, Stay)
      else if truthy (editingId st) then
        (st, {#Req KUpdate (PutCustomer (auth_header tok) (js_str (editingId st)) (dash_name st) (dash_mt st))#},
         Stay)
      else (st, {#Req KAdd (PostCustomer (auth_header tok) (dash_name st) (dash_mt st))#}, Stay))"
| "dash_send tok st (Edit c) = (handleEdit st c, {#}, Stay)"
| "dash_send tok st Cancel = (handleCancel st, {#}, Stay)"
| "dash_send tok st (Delete i) = (st, {#Req KDelete (DeleteCustomer (auth_header tok) (js_str i))#}, Stay)"
| "dash_send tok st Logout = (st, {#}, ToLogin)"

fun dash_deliver :: "jsv \<Rightarrow> dash_st \<Rightarrow> cont \<Rightarrow> response option \<Rightarrow> dash_st \<times> msg multiset" where
  "dash_deliver tok st KFetch res = (fetchCustomers_response st res, {#})"
| "dash_deliver tok st KAdd res = map_prod id (refresh tok) (handleAdd_response st res)"
| "dash_deliver tok st KUpdate res = map_prod id (refresh tok) (handleUpdate_response st res)"
| "dash_deliver tok st KDelete res = map_prod id (refresh tok) (handleDelete_response st res)"

inductive astep :: "config \<Rightarrow> jsv \<Rightarrow> astate \<Rightarrow> astate \<Rightarrow> bool" for cfg tok where
  event: "amounted s \<Longrightarrow> dash_send tok (adash s) ev = (st', ms, e) \<Longrightarrow>
     astep cfg tok s (s\<lparr>adash := st', inflight := inflight s + ms, amounted := (e = Stay)\<rparr>)"
| serve: "Req k rq \<in># inflight s \<Longrightarrow> length salt = 22 \<Longrightarrow> handle cfg now salt (adb s) rq = (r, d') \<Longrightarrow>
     astep cfg tok s (s\<lparr>adb := d', inflight := inflight s - {#Req k rq#} + {#Resp k (Some r)#}\<rparr>)"
| lost: "Req k rq \<in># inflight s \<Longrightarrow>
     astep cfg tok s (s\<lparr>inflight := inflight s - {#Req k rq#} + {#Resp k None#}\<rparr>)"
| dropped: "Resp k (Some r) \<in># inflight s \<Longrightarrow>
     astep cfg tok s (s\<lparr>inflight := inflight s - {#Resp k (Some r)#} + {#Resp k None#}\<rparr>)"
| deliver: "Resp k res \<in># inflight s \<Longrightarrow> dash_deliver tok (adash s) k res = (st', ms) \<Longrightarrow>
     astep cfg tok s (s\<lparr>adash := (if amounted s then st' else adash s),
                        inflight := inflight s - {#Resp k res#} + ms\<rparr>)"

text \<open>
  What the invariant of the displayed list asks of the messages in flight: a list request
  carries the token prop, and an answered list request carries a list of \<open>uid\<close>'s records.
\<close>

definition read_resp_ok :: "oid \<Rightarrow> response \<Rightarrow> bool" where
  "read_resp_ok uid r =
     (case json_of_body (body r) of
        None \<Rightarrow> True
      | Some data \<Rightarrow> \<not> response_ok r \<or> (renders_list data \<and> displays_only uid data))"

fun msg_ok :: "jsv \<Rightarrow> oid \<Rightarrow> msg \<Rightarrow> bool" where
  "msg_ok tok uid (Req KFetch rq) = (rq = ReadCustomer (auth_header tok))"
| "msg_ok tok uid (Resp KFetch (Some r)) = read_resp_ok uid r"
| "msg_ok tok uid _ = True"

definition list_inv :: "jsv \<Rightarrow> oid \<Rightarrow> astate \<Rightarrow> bool" where
  "list_inv tok uid s =
     (renders_list (dash_customers (adash s)) \<and> displays_only uid (dash_customers (adash s)) \<and>
      (\<forall>m\<in>#inflight s. msg_ok tok uid m))"

text \<open>
  The work still in flight, for termination: a list request weighs more than its
  answer, and a change request more than its answer plus the list request its
  continuation may send; an answer lost on the way weighs less than a delivered one.
\<close>

fun msg_weight :: "msg \<Rightarrow> nat" where
  "msg_weight (Req KFetch _) = 3"
| "msg_weight (Resp KFetch (Some _)) = 2"
| "msg_weight (Resp KFetch None) = 1"
| "msg_weight (Req _ _) = 6"
| "msg_weight (Resp _ (Some _)) = 5"
| "msg_weight (Resp _ None) = 4"

definition in_flight_work :: "astate \<Rightarrow> nat" where
  "in_flight_work s = sum_mset (image_mset msg_weight (inflight s))"

subsection \<open>The displayed list under every schedule\<close>

lemma map_prod_id_eq: "map_prod id f p = (a, b) \<longleftrightarrow> a = fst p \<and> b = f (snd p)"
  by (cases p) auto

lemma dash_send_customers:
  assumes "dash_send tok st ev = (st', ms, e)"
  shows "dash_customers st' = dash_customers st \<and> (\<forall>m\<in>#ms. msg_ok tok uid m)"
  using assms by (cases ev) (auto simp: fetch_req_def handleEdit_def handleCancel_def split: if_splits)

lemma read_resp_handle:
  assumes "\<forall>now u. verifyToken (cfg_mac cfg) (cfg_secret cfg) now (auth_header tok) = Inr u \<longrightarrow> u = uid"
  shows "read_resp_ok uid (fst (handle cfg now salt d (ReadCustomer (auth_header tok))))"
proof (cases "verifyToken (cfg_mac cfg) (cfg_secret cfg) now (auth_header tok)")
  case (Inl r)
  then show ?thesis using verifyToken_Inl_unparsed [OF Inl]
    by (simp add: read_resp_ok_def authenticated_def)
next
  case (Inr u)
  with assms have "u = uid" by blast
  with Inr show ?thesis
    by (simp add: read_resp_ok_def authenticated_def get_readCustomer_def json_of_body_def list_all_iff)
qed

lemma refresh_ok: "m \<in># refresh tok b \<Longrightarrow> msg_ok tok uid m"
  by (simp add: refresh_def fetch_req_def split: if_splits)

lemma dash_deliver_inv:
  assumes "dash_deliver tok st k res = (st', ms)" and "msg_ok tok uid (Resp k res)"
    and "renders_list (dash_customers st)" and "displays_only uid (dash_customers st)"
  shows "renders_list (dash_customers st') \<and> displays_only uid (dash_customers st') \<and>
         (\<forall>m\<in>#ms. msg_ok tok uid m)"
proof (cases k)
  case KFetch
  with assms show ?thesis
    by (auto simp: fetchCustomers_response_def read_resp_ok_def split: option.splits)
qed (use assms in \<open>auto simp: map_prod_id_eq refresh_ok\<close>)

lemma astep_list_inv:
  assumes tok: "\<forall>now u. verifyToken (cfg_mac cfg) (cfg_secret cfg) now (auth_header tok) = Inr u \<longrightarrow> u = uid"
  shows "astep cfg tok s t \<Longrightarrow> list_inv tok uid s \<Longrightarrow> list_inv tok uid t"
proof (induction rule: astep.induct)
  case (event s ev st' ms e)
  then show ?case using dash_send_customers [OF event.hyps(2), of uid]
    by (auto simp: list_inv_def)
next
  case (serve k rq s salt now r d')
  have "msg_ok tok uid (Resp k (Some r))"
  proof (cases k)
    case KFetch
    with serve have "rq = ReadCustomer (auth_header tok)" by (auto simp: list_inv_def)
    with KFetch serve.hyps(3) read_resp_handle [OF tok, of now salt "adb s"] show ?thesis by simp
  qed simp_all
  with serve.prems show ?case by (auto simp: list_inv_def dest: in_diffD)
next
  case (lost k rq s)
  then show ?case by (auto simp: list_inv_def dest: in_diffD)
next
  case (dropped k r s)
  then show ?case by (auto simp: list_inv_def dest: in_diffD)
next
  case (deliver k res s st' ms)
  then have m: "msg_ok tok uid (Resp k res)" by (auto simp: list_inv_def)
  have "renders_list (dash_customers st') \<and> displays_only uid (dash_customers st') \<and>
         (\<forall>m\<in>#ms. msg_ok tok uid m)"
    using deliver.prems by (intro dash_deliver_inv [OF deliver.hyps(2) m]) (simp_all add: list_inv_def)
  with deliver.prems show ?case by (auto simp: list_inv_def dest: in_diffD)
qed

text \<open>
  C28. The dashboard never displays another user's record, whatever order its requests are
  served and answered in: if every token check that accepts the token prop names the user
  \<open>uid\<close>, then in every state of the event loop from mounting on, the list on screen is an
  array (so \<open>customers.map\<close> renders) holding only \<open>uid\<close>'s records, although responses
  arrive out of order, get lost, or come back after logout.
\<close>

theorem async_shows_own_records:
  assumes "\<forall>now u. verifyToken (cfg_mac cfg) (cfg_secret cfg) now (auth_header tok) = Inr u \<longrightarrow> u = uid"
    and "(astep cfg tok)\<^sup>*\<^sup>* (ainit tok d) s"
  shows "renders_list (dash_customers (adash s)) \<and> displays_only uid (dash_customers (adash s))"
proof -
  have "list_inv tok uid s"
    using assms(2)
  proof (induction rule: rtranclp_induct)
    case base
    show ?case by (simp add: list_inv_def ainit_def dash_init_def fetch_req_def)
  next
    case (step t u)
    from step.hyps(2) step.IH show ?case by (rule astep_list_inv [OF assms(1)])
  qed
  then show ?thesis by (simp add: list_inv_def)
qed

subsection \<open>The event loop settles\<close>

text \<open>
  Every step of the event loop other than a user event decreases the work in flight: with
  no new user events, every schedule of serving, losing and delivering ends, at the
  latest when nothing is in flight.
\<close>

lemma sum_mset_remove:
  "x \<in># M \<Longrightarrow> sum_mset (image_mset f M) = f x + sum_mset (image_mset f (M - {#x#}))"
  by (metis insert_DiffM sum_mset.insert)

lemma sum_mset_replace:
  assumes "x \<in># M"
  shows "sum_mset (image_mset f (M + N - {#x#})) + f x = sum_mset (image_mset f M) + sum_mset (image_mset f N)"
proof -
  have "x \<in># M + N" using assms by simp
  from sum_mset_remove [OF this, of f] show ?thesis by (simp add: add.commute)
qed

lemma refresh_weight: "sum_mset (image_mset msg_weight (refresh tok b)) \<le> 3"
  by (simp add: refresh_def fetch_req_def)

lemma dash_deliver_weight:
  "dash_deliver tok st k res = (st', ms) \<Longrightarrow>
   sum_mset (image_mset msg_weight ms) < msg_weight (Resp k res)"
  by (cases k; cases res) (auto simp: map_prod_id_eq intro: le_less_trans [OF refresh_weight])

lemma astep_settles:
  assumes "astep cfg tok s t"
  shows "in_flight_work t < in_flight_work s \<or>
         (\<exists>ev st' ms e. amounted s \<and> dash_send tok (adash s) ev = (st', ms, e) \<and>
            t = s\<lparr>adash := st', inflight := inflight s + ms, amounted := (e = Stay)\<rparr>)"
  using assms
proof (cases rule: astep.cases)
  case (serve k rq salt now r d')
  then show ?thesis
    using sum_mset_remove [OF serve(2), of msg_weight]
    by (cases k) (simp_all add: in_flight_work_def)
next
  case (lost k rq)
  then show ?thesis
    using sum_mset_remove [OF lost(2), of msg_weight]
    by (cases k) (simp_all add: in_flight_work_def)
next
  case (dropped k r)
  then show ?thesis
    using sum_mset_remove [OF dropped(2), of msg_weight]
    by (cases k) (simp_all add: in_flight_work_def)
next
  case (deliver k res st' ms)
  then show ?thesis
    using sum_mset_replace [OF deliver(2), of msg_weight ms] dash_deliver_weight [OF deliver(3)]
    by (simp add: in_flight_work_def)
qed blast

end
