(* ===== verification/Spec2Isabelle.thy ===== *)
theory Spec2Isabelle
  imports Concurrency Async
begin

text \<open>
  \<^bold>\<open>Gym Membership Management: a verification library.\<close>

  \<^medskip>\<^bold>\<open>The program.\<close> \<open>src/backend/index.js\<close> is an Express server over MongoDB
  (mongoose). Registered users log in and keep a private list of customer records
  (name and membership type). Its parts, as the repository's spec names them:
  \<^item> the Credential Store: \<open>POST /api/register\<close> and \<open>POST /api/Login\<close>, with the
    \<open>User\<close> collection and bcrypt password hashes;
  \<^item> the Session Authority: \<open>JWT_SECRET\<close> and the \<open>verifyToken\<close> middleware; login
    signs a token of one hour for the user's id, and the middleware checks it;
  \<^item> the Ownership-Scoped Record Store: the four routes on \<open>/api/Customer\<close>, every
    query filtered by the id the middleware put in \<open>req.userId\<close>;
  \<^item> the React front end (\<open>src/frontend/src/Login.jsx\<close>, \<open>Dashboard.jsx\<close>), a client of
    these routes.
  A request runs the middleware (customer routes only), then one handler that reads or
  writes the store and sends one response; nothing is shared between requests but the
  database and the secret.

  \<^medskip>\<^bold>\<open>Theories.\<close>
  \<^item> \<open>Prelim\<close>: the representation of ids (\<open>oid\<close>, numbers) and times (\<open>seconds\<close>),
    and the JavaScript builtins the code relies on: \<open>String.prototype.replace\<close> with a
    string pattern (\<open>replace_first\<close>), \<open>split\<close> (\<open>split_on\<close>), decimal numerals
    (\<open>show_nat\<close>, \<open>read_nat\<close>, with their round trip).
  \<^item> \<open>ObjectId\<close>: the 12-byte ObjectId as a \<open>96 word\<close> and its string form: \<open>oid_hex\<close>
    (\<open>toHexString\<close>, the \<open>_id\<close> of JSON documents) and the decoder \<open>parse_hex\<close> that
    shifts hex digits into the word (\<open>push_bit\<close>, \<open>OR\<close>), with the lemmas the route
    and front-end proofs use (the decoder reads the arithmetic value; an id below
    \<open>2 ^ 96\<close> survives \<open>oid_hex\<close> then the cast).
  \<^item> \<open>Crypto\<close>: the contracts of bcryptjs (\<open>bcrypt_hash\<close>, \<open>bcrypt_compare\<close>: salt
    read back from the hash, only the first 72 bytes of the password count) and of
    jsonwebtoken (\<open>jwt_sign\<close>, \<open>jwt_verify\<close>: three dot-separated parts, MAC of header
    and payload, expiry \<open>now < exp\<close>), over the primitives \<open>kdf\<close> and \<open>mac\<close> as
    parameters. Libraries, not repository code.
  \<^item> \<open>Store\<close>: \<open>UserSchema\<close> and \<open>CustomerSchema\<close> as records, the database as two
    lists in natural order with an ObjectId counter, the mongoose operations the routes
    call (\<open>save_user\<close>, \<open>save_customer\<close> with their validators, \<open>update_first\<close> and
    \<open>remove_first\<close> for \<open>findOneAndUpdate\<close>/\<open>findOneAndDelete\<close>, and \<open>cast_oid\<close>, the
    cast of a path parameter: 24 hex digits of either case, else a \<open>CastError\<close>) and the
    HTTP responses.
  \<^item> \<open>Session\<close>: \<open>JWT_SECRET\<close> (line 9) and \<open>verifyToken\<close> (lines 39--51).
  \<^item> \<open>Credentials\<close>: \<open>register\<close> (lines 53--74) and \<open>login\<close> (lines 76--94).
  \<^item> \<open>Customers\<close>: \<open>post_customer\<close>, \<open>get_readCustomer\<close>, \<open>put_customer\<close>,
    \<open>delete_customer\<close> (lines 97--154), each given the authenticated id.
  \<^item> \<open>Server\<close>: the configuration, the \<open>request\<close> datatype with one constructor per
    route, \<open>handle\<close> (routing and middleware), \<open>run\<close> over a sequence of requests,
    the \<open>reachable\<close> states from the empty database and the invariant \<open>wf_db\<close>
    (usernames unique and non-empty, ObjectIds unique and below the counter), proved for
    every reachable state by rule induction.
  \<^item> \<open>Concurrency\<close>: requests in flight interleaved by the event loop (\<open>task\<close>, the
    step relation \<open>cstep\<close>): a registration pauses at its two \<open>await\<close>s, every other
    route (one store call each) is a single atomic step. It shows the check-then-save
    race, that every interleaved state is a sequential one (so every invariant of
    \<open>Server\<close> holds under concurrency, by the unique index), and the refinement of
    \<open>register\<close> by an uninterrupted task.
  \<^item> \<open>Frontend\<close>: \<open>Login.jsx\<close> and \<open>Dashboard.jsx\<close>. The \<open>useState\<close> hooks as
    the records \<open>login_st\<close> and \<open>dash_st\<close>; each handler split at its \<open>await\<close> into
    the request it sends and its continuation on the response (\<open>login_response\<close>,
    \<open>fetchCustomers_response\<close>, \<open>handleAdd_response\<close>, \<open>handleUpdate_response\<close>,
    \<open>handleDelete_response\<close>), with \<open>response.json()\<close> failing on text bodies; the
    composition with the server (\<open>login_submit\<close>, \<open>dash_event\<close>); the pages' user
    events, typing into the inputs included, as \<open>login_event\<close> and \<open>ui_event\<close>, and their
    sessions \<open>login_run\<close> and \<open>dash_run\<close>, which end when an event navigates away
    (to the dashboard, to \<open>/register\<close>, at logout). A login session never writes the
    database (\<open>login_run_db\<close>): the front end has no way to register.
  \<^item> \<open>Async\<close>: the dashboard with its requests in flight, as the browser runs it. The
    messages in flight (a multiset of requests not yet served and responses not yet
    delivered, each tagged with the continuation awaiting it), \<open>dash_send\<close> (the part of
    a handler before its \<open>await\<close>), \<open>dash_deliver\<close> (the continuation, and the refresh it
    sends), and the step relation \<open>astep\<close>: user events, the server serving any request
    in flight, \<open>fetch\<close> rejecting before or after the server, deliveries in any order,
    and continuations after logout whose state updates are discarded.
    Every step but a user event decreases the work in flight (\<open>in_flight_work\<close>,
    \<open>astep_settles\<close>), so without new events every schedule ends.
  \<^item> this theory: the properties that span the components, each stated over
    \<open>handle\<close>, the server's whole behaviour on one request, the spec's scenario as a
    \<open>run\<close> for any two users and any record, the schedule that leaves the dashboard's list stale, and the
    witnesses of the front-end properties.

  \<^medskip>\<^bold>\<open>What the properties show.\<close> Ownership isolation of reads, updates and deletes;
  the middleware as the only gate of the customer routes (403 or 401 for a missing, bad
  or expired token, the store untouched); the token's one-hour window; register
  then login; duplicate usernames refused; round trips create/update/delete then read;
  error paths (a malformed id, a missing field) as 500 responses; and behaviours where the
  code differs from its spec: validation failures answered 500 and not 4xx, updates that
  skip validation, a token accepted without its \<open>Bearer\<close> prefix, passwords equal on
  their first 72 bytes accepted, the public default secret, and login messages that tell
  an unknown user from a wrong password. The spec's scenario runs as the spec says for
  any two users and any record. Across concurrency: the register race (a 500 where the
  spec promises a 400), and that interleaving reaches no state a sequential run does not
  (which rests on the unique index). Across the front end: login then dashboard lists the
  user's own customers, a failed login shows the server's message, add and edit keep the
  form and the list consistent with the server, and an expired session is reported as
  \<open>Server Error\<close>. Under every schedule of the event loop the list stays renderable and
  free of other users' records; but it can end up stale: an old answer delivered after a
  newer one puts back a list that misses the record just added.

  \<^medskip>\<^bold>\<open>Choices and limits.\<close> No loops and no fuel: every operation is a total
  function, and a dashboard session is a finite list of events.
  Documents are identified by numbers (\<open>oid\<close>, from a counter, as the spec's scenario
  needs fresh ids); the ObjectId a number stands for is its 96-bit value, so statements
  about the string form of an id assume it below \<open>2 ^ 96\<close>. The cast follows bson 5 and
  later, which accept only 24 hex digits (older versions also took any 12-byte string).
  The JSON/base64 form of the token payload is a decimal encoding with the same round
  trip; its \<open>userId\<close> is a number, so a token signed with the secret over a
  \<open>userId\<close> that is no ObjectId, which the code would answer with a 500 from the cast
  in the query, is rejected with 401 by the model. The crypto
  primitives are parameters: only their shape is assumed (\<open>mac_base64url\<close>: the MAC is
  written in base64url, as HMAC-SHA256 in a JWT is), never collision resistance.
  Interleaving (theory \<open>Concurrency\<close>) splits a request only at an \<open>await\<close>
  followed by another store call: registration (\<open>findOne\<close> then \<open>save\<close>). The other
  routes make one store call each, single-document and atomic in MongoDB, so each is
  one step of \<open>handle\<close> in the interleaving. The front
  end's \<open>fetch\<close> is handled by this one server (the dashboard's \<open>localhost\<close> URL and
  the login page's deployed URL are taken as the same backend). The sequential front-end
  theory lets each response arrive before the next event; theory \<open>Async\<close> drops that
  assumption for the dashboard; for the login page, whose form sends one request and
  leaves the page on a success, two submits in flight are not modelled. The JSX is modelled only by what \<open>customers.map\<close> needs and by the message
  paragraph (\<open>message_view\<close>). Not
  modelled: the router and the parent component that holds the token (not in the
  repository's sources; their effect is \<open>nav_effect\<close>), \<open>cors()\<close> and
  \<open>express.json()\<close> (transport set-up that does not change what a handler computes; the
  model's requests arrive parsed), the console logging of errors, the port, start-up
  (\<open>dotenv\<close>, \<open>mongoose.connect\<close>, whose failure is only logged, and
  \<open>app.listen\<close>) beyond the secret it reads (\<open>JWT_SECRET\<close>), rejected store calls
  (each route's \<open>catch\<close> answers 500; a model of them would only restate that), request
  bodies carrying objects instead of strings (no operator injection is modelled),
  the rendering of the pages beyond the customer list, and request bodies whose fields are absent
  (the model's bodies carry strings, as the front end sends them).

  \<^medskip>\<^bold>\<open>Witnesses.\<close> \<open>demo_cfg\<close> instantiates the primitives with executable
  functions (the identity as \<open>kdf\<close>, a decimal length as \<open>mac\<close>) and the default
  secret; \<open>demo_db\<close> is a database with two users and one record of the first.
\<close>

definition demo_cfg :: config where
  "demo_cfg = \<lparr>cfg_kdf = (\<lambda>s p. p), cfg_mac = (\<lambda>k m. show_nat (length k + length m)),
               cfg_secret = JWT_SECRET None\<rparr>"

definition demo_salt :: string where
  "demo_salt = replicate 22 CHR ''s''"

definition demo_db :: db where
  "demo_db =
     \<lparr>users = [\<lparr>user_id = 0, username = ''alice'', password = bcrypt_hash (\<lambda>s p. p) demo_salt ''pw1''\<rparr>,
               \<lparr>user_id = 1, username = ''bob'', password = bcrypt_hash (\<lambda>s p. p) demo_salt ''pw2''\<rparr>],
      customers = [\<lparr>customer_id = 2, name = ''Bob'', membershipType = ''Gold'', user = 0\<rparr>],
      next_oid = 3\<rparr>"

definition demo_token :: "seconds \<Rightarrow> oid \<Rightarrow> string" where
  "demo_token t uid = jwt_sign (cfg_mac demo_cfg) (cfg_secret demo_cfg) t uid"

text \<open>
  The concrete scenario of the spec (section 8), for any two users \<open>a\<close> and \<open>b\<close> and
  any record: \<open>a\<close> registers and logs in (token \<open>T1\<close>), adds the record and reads
  it; \<open>b\<close> registers and logs in (\<open>T2\<close>), reads, tries to delete \<open>a\<close>'s record,
  and \<open>a\<close> reads again. The tokens are the ones the two logins return (the run's second
  and sixth responses); the ids are those the server hands out from an empty database.
\<close>

definition spec_scenario ::
  "config \<Rightarrow> string \<Rightarrow> string \<Rightarrow> string \<Rightarrow> string \<Rightarrow> string \<Rightarrow> string \<Rightarrow> string \<Rightarrow>
   (seconds \<times> string \<times> request) list" where
  "spec_scenario cfg salt a pa b pb nm mt =
     (let T1 = Some (bearer_prefix @ jwt_sign (cfg_mac cfg) (cfg_secret cfg) 1 0);
          T2 = Some (bearer_prefix @ jwt_sign (cfg_mac cfg) (cfg_secret cfg) 5 2) in
      [(0, salt, Register a pa), (1, salt, Login a pa),
       (2, salt, PostCustomer T1 nm mt), (3, salt, ReadCustomer T1),
       (4, salt, Register b pb), (5, salt, Login b pb),
       (6, salt, ReadCustomer T2), (7, salt, DeleteCustomer T2 (oid_hex 1)),
       (8, salt, ReadCustomer T1)])"

subsection \<open>Facts about the demo configuration\<close>

lemma demo_salt_len: "length demo_salt = 22"
  by (simp add: demo_salt_def)

lemma demo_cfg_kdf: "cfg_kdf demo_cfg = (\<lambda>s p. p)"
  by (simp add: demo_cfg_def)

lemma demo_mac_ok: "mac_base64url (cfg_mac demo_cfg)"
  by (simp add: demo_cfg_def mac_base64url_show_nat)

lemma demo_verify:
  "now < t + token_lifetime \<Longrightarrow>
   verifyToken (cfg_mac demo_cfg) (cfg_secret demo_cfg) now (Some (bearer_prefix @ demo_token t uid)) =
   Inr uid"
  using verifyToken_bearer_sign [OF demo_mac_ok] by (simp add: demo_token_def)

lemma demo_db_customers:
  "customers demo_db = [\<lparr>customer_id = 2, name = ''Bob'', membershipType = ''Gold'', user = 0\<rparr>]"
  by (simp add: demo_db_def)

lemma demo_auth:
  "verifyToken (cfg_mac demo_cfg) (cfg_secret demo_cfg) now (auth_header (JStr (demo_token t uid))) =
     (if t + token_lifetime \<le> now then Inl (resp 401 (Text ''Invalid Token'')) else Inr uid)"
  using auth_header_sign [OF demo_mac_ok] by (simp add: demo_token_def)

lemma demo_alice:
  "find (\<lambda>u. username u = ''alice'') (users demo_db) =
     Some \<lparr>user_id = 0, username = ''alice'', password = bcrypt_hash (\<lambda>s p. p) demo_salt ''pw1''\<rparr>"
  by (simp add: demo_db_def)

subsection \<open>Ownership isolation\<close>

text \<open>
  C1. Reading is scoped to the caller: \<open>GET /api/readCustomer\<close> with a token for
  \<open>p2\<close> answers exactly \<open>p2\<close>'s records, leaves the store unchanged, and never shows
  a record of another principal \<open>p1\<close>.
\<close>

theorem read_isolation:
  assumes "verifyToken (cfg_mac cfg) (cfg_secret cfg) now hdr = Inr p2"
    and "c \<in> set (customers d)" and "user c = p1" and "p1 \<noteq> p2"
    and "handle cfg now salt d (ReadCustomer hdr) = (r, d')"
  shows "d' = d \<and> r = resp 200 (CustomerList (filter (owned p2) (customers d))) \<and>
         c \<notin> set (filter (owned p2) (customers d))"
  using assms by (auto simp: get_readCustomer_def owned_def)

theorem read_isolation_witness:
  "handle demo_cfg 10 demo_salt demo_db (ReadCustomer (Some (bearer_prefix @ demo_token 0 1))) =
     (resp 200 (CustomerList []), demo_db) \<and>
   \<lparr>customer_id = 2, name = ''Bob'', membershipType = ''Gold'', user = 0\<rparr> \<notin>
     set (filter (owned 1) (customers demo_db))"
proof -
  let ?c = "\<lparr>customer_id = 2, name = ''Bob'', membershipType = ''Gold'', user = 0\<rparr>"
  have v: "verifyToken (cfg_mac demo_cfg) (cfg_secret demo_cfg) 10
             (Some (bearer_prefix @ demo_token 0 1)) = Inr 1"
    by (rule demo_verify) (simp add: token_lifetime_def)
  have h: "handle demo_cfg 10 demo_salt demo_db (ReadCustomer (Some (bearer_prefix @ demo_token 0 1))) =
             (get_readCustomer demo_db 1, demo_db)"
    using v by simp
  have "demo_db = demo_db \<and>
        get_readCustomer demo_db 1 = resp 200 (CustomerList (filter (owned 1) (customers demo_db))) \<and>
        ?c \<notin> set (filter (owned 1) (customers demo_db))"
    using read_isolation [OF v _ _ _ h, of ?c 0] by (simp add: demo_db_customers)
  with h show ?thesis by (simp add: demo_db_customers owned_def)
qed

text \<open>
  C2. Updates are scoped to the caller: \<open>PUT /api/Customer/:id\<close> by \<open>p2\<close> with a
  well-formed id answers 200 "Customer Updated Successfully" whatever it matched, and leaves
  every record of any other principal \<open>p1\<close> and the users exactly as they were.
\<close>

theorem update_isolation:
  assumes "verifyToken (cfg_mac cfg) (cfg_secret cfg) now hdr = Inr p2" and "p1 \<noteq> p2"
    and "cast_oid cid = Inr i"
    and "handle cfg now salt d (PutCustomer hdr cid nm mt) = (r, d')"
  shows "r = resp 200 (Message ''Customer Updated Successfully'') \<and>
         filter (owned p1) (customers d') = filter (owned p1) (customers d) \<and> users d' = users d"
proof -
  have eq: "put_customer d p2 cid nm mt = (r, d')"
    using assms(1,4) by simp
  have "r = resp 200 (Message ''Customer Updated Successfully'')"
    using eq assms(3) by (auto simp: put_customer_def)
  moreover have "filter (owned p1) (customers d') = filter (owned p1) (customers d)"
    using put_customer_other_owner [OF assms(2), of d cid nm mt] eq by simp
  moreover have "users d' = users d"
    using put_customer_users(1) [of d p2 cid nm mt] eq by simp
  ultimately show ?thesis by blast
qed

theorem update_isolation_witness:
  "fst (handle demo_cfg 10 demo_salt demo_db
          (PutCustomer (Some (bearer_prefix @ demo_token 0 1)) (oid_hex 2) ''Eve'' ''Silver'')) =
     resp 200 (Message ''Customer Updated Successfully'') \<and>
   filter (owned 0) (customers (snd (handle demo_cfg 10 demo_salt demo_db
          (PutCustomer (Some (bearer_prefix @ demo_token 0 1)) (oid_hex 2) ''Eve'' ''Silver'')))) =
     filter (owned 0) (customers demo_db) \<and>
   users (snd (handle demo_cfg 10 demo_salt demo_db
          (PutCustomer (Some (bearer_prefix @ demo_token 0 1)) (oid_hex 2) ''Eve'' ''Silver''))) =
     users demo_db"
proof -
  have v: "verifyToken (cfg_mac demo_cfg) (cfg_secret demo_cfg) 10
             (Some (bearer_prefix @ demo_token 0 1)) = Inr 1"
    by (rule demo_verify) (simp add: token_lifetime_def)
  obtain r d' where h: "handle demo_cfg 10 demo_salt demo_db
      (PutCustomer (Some (bearer_prefix @ demo_token 0 1)) (oid_hex 2) ''Eve'' ''Silver'') = (r, d')"
    by (cases "handle demo_cfg 10 demo_salt demo_db
      (PutCustomer (Some (bearer_prefix @ demo_token 0 1)) (oid_hex 2) ''Eve'' ''Silver'')")
  have "(0::oid) \<noteq> 1" by simp
  from update_isolation [OF v this cast_oid_oid_hex h] h show ?thesis by simp
qed

text \<open>
  C3. Deletes are scoped to the caller: \<open>DELETE /api/Customer/:id\<close> by \<open>p2\<close> with a
  well-formed id answers 200 "Customer Deleted Successfully" whatever it matched, and leaves
  every record of any other principal \<open>p1\<close> and the users exactly as they were.
\<close>

theorem delete_isolation:
  assumes "verifyToken (cfg_mac cfg) (cfg_secret cfg) now hdr = Inr p2" and "p1 \<noteq> p2"
    and "cast_oid cid = Inr i"
    and "handle cfg now salt d (DeleteCustomer hdr cid) = (r, d')"
  shows "r = resp 200 (Message ''Customer Deleted Successfully'') \<and>
         filter (owned p1) (customers d') = filter (owned p1) (customers d) \<and> users d' = users d"
proof -
  have eq: "delete_customer d p2 cid = (r, d')"
    using assms(1,4) by simp
  have "r = resp 200 (Message ''Customer Deleted Successfully'')"
    using eq assms(3) by (auto simp: delete_customer_def)
  moreover have "filter (owned p1) (customers d') = filter (owned p1) (customers d)"
    using delete_customer_other_owner [OF assms(2), of d cid] eq by simp
  moreover have "users d' = users d"
    using delete_customer_users(1) [of d p2 cid] eq by simp
  ultimately show ?thesis by blast
qed

theorem delete_isolation_witness:
  "fst (handle demo_cfg 10 demo_salt demo_db
          (DeleteCustomer (Some (bearer_prefix @ demo_token 0 1)) (oid_hex 2))) =
     resp 200 (Message ''Customer Deleted Successfully'') \<and>
   filter (owned 0) (customers (snd (handle demo_cfg 10 demo_salt demo_db
          (DeleteCustomer (Some (bearer_prefix @ demo_token 0 1)) (oid_hex 2))))) =
     filter (owned 0) (customers demo_db) \<and>
   users (snd (handle demo_cfg 10 demo_salt demo_db
          (DeleteCustomer (Some (bearer_prefix @ demo_token 0 1)) (oid_hex 2)))) = users demo_db"
proof -
  have v: "verifyToken (cfg_mac demo_cfg) (cfg_secret demo_cfg) 10
             (Some (bearer_prefix @ demo_token 0 1)) = Inr 1"
    by (rule demo_verify) (simp add: token_lifetime_def)
  obtain r d' where h: "handle demo_cfg 10 demo_salt demo_db
      (DeleteCustomer (Some (bearer_prefix @ demo_token 0 1)) (oid_hex 2)) = (r, d')"
    by (cases "handle demo_cfg 10 demo_salt demo_db
      (DeleteCustomer (Some (bearer_prefix @ demo_token 0 1)) (oid_hex 2))")
  have "(0::oid) \<noteq> 1" by simp
  from delete_isolation [OF v this cast_oid_oid_hex h] h show ?thesis by simp
qed

subsection \<open>The middleware is the only gate\<close>

text \<open>
  C4. On every customer route, when \<open>verifyToken\<close> rejects the request its response
  (403 or 401) is the server's answer and the database is not touched: no handler runs.
\<close>

theorem customer_routes_gate:
  assumes "req_header rq = Some hdr"
    and "verifyToken (cfg_mac cfg) (cfg_secret cfg) now hdr = Inl r0"
  shows "handle cfg now salt d rq = (r0, d) \<and> (status r0 = 403 \<or> status r0 = 401)"
proof -
  have "handle cfg now salt d rq = (r0, d)"
    using assms by (cases rq) auto
  with verifyToken_Inl_status [OF assms(2)] show ?thesis by blast
qed

theorem customer_routes_gate_witness:
  "handle demo_cfg 10 demo_salt demo_db (DeleteCustomer None (oid_hex 2)) =
     (resp 403 (Text ''Token Missing''), demo_db) \<and>
   (status (resp 403 (Text ''Token Missing'')) = 403 \<or> status (resp 403 (Text ''Token Missing'')) = 401)"
  using customer_routes_gate [of "DeleteCustomer None (oid_hex 2)" None demo_cfg 10
          "resp 403 (Text ''Token Missing'')" demo_salt demo_db]
  by simp

subsection \<open>Credentials and tokens\<close>

text \<open>
  C6. The token window: a token that \<open>POST /api/Login\<close> issues at time \<open>t\<close> for the
  user named \<open>un\<close> is accepted by \<open>verifyToken\<close> (as \<open>Bearer <token>\<close>) at every time
  \<open>now < t + 3600\<close>, as that user's id, and rejected with 401 from \<open>t + 3600\<close> on;
  login itself changes nothing.
\<close>

theorem token_window:
  assumes "mac_base64url (cfg_mac cfg)"
    and "handle cfg t salt d (Login un pw) = (resp 200 (TokenBody tok), d')"
  shows "d' = d \<and>
         (\<exists>u. find (\<lambda>u. username u = un) (users d) = Some u \<and>
              verifyToken (cfg_mac cfg) (cfg_secret cfg) now (Some (bearer_prefix @ tok)) =
                (if t + token_lifetime \<le> now then Inl (resp 401 (Text ''Invalid Token''))
                 else Inr (user_id u)))"
proof -
  have l: "login (cfg_kdf cfg) (cfg_mac cfg) (cfg_secret cfg) t d un pw = resp 200 (TokenBody tok)"
    and "d' = d"
    using assms(2) by auto
  moreover obtain u where u: "find (\<lambda>u. username u = un) (users d) = Some u"
    and tok: "tok = jwt_sign (cfg_mac cfg) (cfg_secret cfg) t (user_id u)"
    using l by (auto simp: login_def resp_def split: option.splits if_splits)
  ultimately show ?thesis
    using verifyToken_bearer_sign [OF assms(1)] by auto
qed

theorem token_window_witness:
  "verifyToken (cfg_mac demo_cfg) (cfg_secret demo_cfg) 3599 (Some (bearer_prefix @ demo_token 0 0)) = Inr 0 \<and>
   verifyToken (cfg_mac demo_cfg) (cfg_secret demo_cfg) 3600 (Some (bearer_prefix @ demo_token 0 0)) =
     Inl (resp 401 (Text ''Invalid Token''))"
proof -
  have f: "find (\<lambda>u. username u = ''alice'') (users demo_db) =
             Some \<lparr>user_id = 0, username = ''alice'', password = bcrypt_hash (\<lambda>s p. p) demo_salt ''pw1''\<rparr>"
    by (simp add: demo_db_def)
  have c: "bcrypt_compare (\<lambda>s p. p) ''pw1'' (bcrypt_hash (\<lambda>s p. p) demo_salt ''pw1'')"
    by (simp add: bcrypt_compare_hash demo_salt_def)
  have h: "handle demo_cfg 0 demo_salt demo_db (Login ''alice'' ''pw1'') =
             (resp 200 (TokenBody (demo_token 0 0)), demo_db)"
    using login_known [OF f] c by (simp add: demo_cfg_def demo_token_def)
  show ?thesis
    using token_window [OF demo_mac_ok h, of 3599] token_window [OF demo_mac_ok h, of 3600] f
    by (simp add: token_lifetime_def)
qed

text \<open>
  C7. Register then login: registering a free, non-empty username answers 201 and stores
  the user with the next ObjectId; logging in afterwards with the same password, at any
  time and with any salt drawn, answers 200 with a token for that id.
\<close>

theorem register_then_login:
  assumes "\<not> list_ex (\<lambda>u. username u = un) (users d)" and "un \<noteq> []"
    and "length salt = 22"
    and "handle cfg t0 salt d (Register un pw) = (r, d')"
  shows "r = resp 201 (Message ''User Registered Successfully'') \<and>
         handle cfg now salt' d' (Login un pw) =
           (resp 200 (TokenBody (jwt_sign (cfg_mac cfg) (cfg_secret cfg) now (next_oid d))), d')"
proof -
  have reg: "register (cfg_kdf cfg) salt d un pw = (r, d')"
    using assms(4) by simp
  then have "r = resp 201 (Message ''User Registered Successfully'')"
    using register_fresh [OF assms(1,2)] by simp
  moreover have "login (cfg_kdf cfg) (cfg_mac cfg) (cfg_secret cfg) now d' un pw =
      resp 200 (TokenBody (jwt_sign (cfg_mac cfg) (cfg_secret cfg) now (next_oid d)))"
    using login_after_register [OF assms(1,2,3) reg] by simp
  ultimately show ?thesis by simp
qed

theorem register_then_login_witness:
  "handle demo_cfg 20 demo_salt
     (snd (handle demo_cfg 10 demo_salt demo_db (Register ''carol'' ''pw3''))) (Login ''carol'' ''pw3'') =
   (resp 200 (TokenBody (jwt_sign (cfg_mac demo_cfg) (cfg_secret demo_cfg) 20 3)),
    snd (handle demo_cfg 10 demo_salt demo_db (Register ''carol'' ''pw3'')))"
proof -
  obtain r d' where h: "handle demo_cfg 10 demo_salt demo_db (Register ''carol'' ''pw3'') = (r, d')"
    by (cases "handle demo_cfg 10 demo_salt demo_db (Register ''carol'' ''pw3'')")
  have "\<not> list_ex (\<lambda>u. username u = ''carol'') (users demo_db)" and "length demo_salt = 22"
    by (simp_all add: demo_db_def demo_salt_def)
  from register_then_login [OF this(1) _ this(2) h, of 20 demo_salt] h show ?thesis
    by (simp add: demo_db_def)
qed

text \<open>
  C8. A username already taken is refused with 400 "Username already exists" whatever the
  password, and nothing is stored.
\<close>

theorem duplicate_username:
  assumes "list_ex (\<lambda>u. username u = un) (users d)"
  shows "handle cfg now salt d (Register un pw) =
           (resp 400 (Message ''Username already exists''), d)"
  using register_taken [OF assms] by simp

theorem duplicate_username_witness:
  "handle demo_cfg 10 demo_salt demo_db (Register ''alice'' ''other'') =
     (resp 400 (Message ''Username already exists''), demo_db)"
  by (rule duplicate_username) (simp add: demo_db_def)

subsection \<open>The state invariant\<close>

text \<open>
  C9. In every state the server reaches from an empty database, whatever the requests,
  clock values and salts, no two users share a username: the check in
  \<open>POST /api/register\<close> together with the unique index keeps usernames unique.
\<close>

theorem reachable_usernames_unique:
  assumes "reachable cfg d"
  shows "distinct (map username (users d)) \<and> list_all (\<lambda>u. username u \<noteq> []) (users d)"
  using reachable_wf [OF assms] by (simp add: wf_db_def)

theorem reachable_usernames_unique_witness:
  "distinct (map username (users (snd (handle demo_cfg 0 demo_salt init_db (Register ''alice'' ''pw1''))))) \<and>
   list_all (\<lambda>u. username u \<noteq> [])
     (users (snd (handle demo_cfg 0 demo_salt init_db (Register ''alice'' ''pw1''))))"
proof -
  have "reachable demo_cfg (snd (handle demo_cfg 0 demo_salt init_db (Register ''alice'' ''pw1'')))"
    by (rule reachable_handle [OF reachable.init]) (simp add: demo_salt_def)
  then show ?thesis by (rule reachable_usernames_unique)
qed

subsection \<open>Round trips through the record store\<close>

text \<open>
  C10. Create then read: after \<open>POST /api/Customer\<close> with non-empty fields (201), a
  read with the same valid token lists the caller's earlier records followed by the new
  record, carrying exactly the name and membership type sent, a fresh ObjectId and the
  caller as owner.
\<close>

theorem create_then_read:
  assumes "verifyToken (cfg_mac cfg) (cfg_secret cfg) now hdr = Inr uid"
    and "verifyToken (cfg_mac cfg) (cfg_secret cfg) now' hdr = Inr uid"
    and "nm \<noteq> []" and "mt \<noteq> []"
    and "handle cfg now salt d (PostCustomer hdr nm mt) = (r, d')"
  shows "r = resp 201 (Message ''Customer Added Successfully'') \<and>
         handle cfg now' salt' d' (ReadCustomer hdr) =
           (resp 200 (CustomerList (filter (owned uid) (customers d) @
              [\<lparr>customer_id = next_oid d, name = nm, membershipType = mt, user = uid\<rparr>])), d')"
proof -
  have "post_customer d uid nm mt = (r, d')"
    using assms(1,5) by simp
  then have "r = resp 201 (Message ''Customer Added Successfully'')"
    and d': "customers d' = customers d @
               [\<lparr>customer_id = next_oid d, name = nm, membershipType = mt, user = uid\<rparr>]"
    using post_customer_ok [OF assms(3,4), of d uid] by auto
  with assms(2) show ?thesis
    by (simp add: get_readCustomer_def owned_def)
qed

theorem create_then_read_witness:
  "handle demo_cfg 11 demo_salt
     (snd (handle demo_cfg 10 demo_salt demo_db
        (PostCustomer (Some (bearer_prefix @ demo_token 0 1)) ''Ann'' ''Silver'')))
     (ReadCustomer (Some (bearer_prefix @ demo_token 0 1))) =
   (resp 200 (CustomerList [\<lparr>customer_id = 3, name = ''Ann'', membershipType = ''Silver'', user = 1\<rparr>]),
    snd (handle demo_cfg 10 demo_salt demo_db
        (PostCustomer (Some (bearer_prefix @ demo_token 0 1)) ''Ann'' ''Silver'')))"
proof -
  have v: "verifyToken (cfg_mac demo_cfg) (cfg_secret demo_cfg) n
             (Some (bearer_prefix @ demo_token 0 1)) = Inr 1" if "n < 3600" for n
    using that by (intro demo_verify) (simp add: token_lifetime_def)
  obtain r d' where h: "handle demo_cfg 10 demo_salt demo_db
      (PostCustomer (Some (bearer_prefix @ demo_token 0 1)) ''Ann'' ''Silver'') = (r, d')"
    by (cases "handle demo_cfg 10 demo_salt demo_db
      (PostCustomer (Some (bearer_prefix @ demo_token 0 1)) ''Ann'' ''Silver'')")
  from create_then_read [OF v v _ _ h, of 11 demo_salt] h show ?thesis
    by (simp add: demo_db_def owned_def)
qed

text \<open>
  C11. Update then read: in a well-formed state (every reachable state is one, theory
  \<open>Server\<close>), after \<open>PUT /api/Customer/:id\<close> by the owner, a read lists the
  caller's records with exactly the record of that id changed to the new name and
  membership type, and nothing else changed.
\<close>

theorem update_then_read:
  assumes "wf_db d"
    and "verifyToken (cfg_mac cfg) (cfg_secret cfg) now hdr = Inr uid"
    and "verifyToken (cfg_mac cfg) (cfg_secret cfg) now' hdr = Inr uid"
    and "cast_oid cid = Inr i"
    and "handle cfg now salt d (PutCustomer hdr cid nm mt) = (r, d')"
  shows "handle cfg now' salt' d' (ReadCustomer hdr) =
           (resp 200 (CustomerList
              (map (\<lambda>c. if customer_id c = i then c\<lparr>name := nm, membershipType := mt\<rparr> else c)
                 (filter (owned uid) (customers d)))), d')"
proof -
  have "put_customer d uid cid nm mt = (r, d')"
    using assms(2,5) by simp
  moreover have "distinct (map customer_id (customers d))"
    using assms(1) by (simp add: wf_db_def)
  ultimately have "customers d' =
      map (\<lambda>c. if target i uid c then c\<lparr>name := nm, membershipType := mt\<rparr> else c) (customers d)"
    using put_customer_distinct [of d cid i uid nm mt] assms(4) by simp
  with assms(3) show ?thesis
    by (simp add: get_readCustomer_def filter_owned_update)
qed

theorem update_then_read_witness:
  "handle demo_cfg 11 demo_salt
     (snd (handle demo_cfg 10 demo_salt demo_db
        (PutCustomer (Some (bearer_prefix @ demo_token 0 0)) (oid_hex 2) ''Bob'' ''Platinum'')))
     (ReadCustomer (Some (bearer_prefix @ demo_token 0 0))) =
   (resp 200 (CustomerList [\<lparr>customer_id = 2, name = ''Bob'', membershipType = ''Platinum'', user = 0\<rparr>]),
    snd (handle demo_cfg 10 demo_salt demo_db
        (PutCustomer (Some (bearer_prefix @ demo_token 0 0)) (oid_hex 2) ''Bob'' ''Platinum'')))"
proof -
  have v: "verifyToken (cfg_mac demo_cfg) (cfg_secret demo_cfg) n
             (Some (bearer_prefix @ demo_token 0 0)) = Inr 0" if "n < 3600" for n
    using that by (intro demo_verify) (simp add: token_lifetime_def)
  have wf: "wf_db demo_db"
    by (simp add: wf_db_def demo_db_def)
  obtain r d' where h: "handle demo_cfg 10 demo_salt demo_db
      (PutCustomer (Some (bearer_prefix @ demo_token 0 0)) (oid_hex 2) ''Bob'' ''Platinum'') = (r, d')"
    by (cases "handle demo_cfg 10 demo_salt demo_db
      (PutCustomer (Some (bearer_prefix @ demo_token 0 0)) (oid_hex 2) ''Bob'' ''Platinum'')")
  have c: "cast_oid (oid_hex 2) = Inr 2" by simp
  from update_then_read [OF wf v v c h, of 11 demo_salt] h show ?thesis
    by (simp add: demo_db_def owned_def)
qed

text \<open>
  C12. Delete then read: in a well-formed state, after \<open>DELETE /api/Customer/:id\<close> by
  the owner, a read lists the caller's records without the record of that id and with all
  the others, in the same order.
\<close>

theorem delete_then_read:
  assumes "wf_db d"
    and "verifyToken (cfg_mac cfg) (cfg_secret cfg) now hdr = Inr uid"
    and "verifyToken (cfg_mac cfg) (cfg_secret cfg) now' hdr = Inr uid"
    and "cast_oid cid = Inr i"
    and "handle cfg now salt d (DeleteCustomer hdr cid) = (r, d')"
  shows "handle cfg now' salt' d' (ReadCustomer hdr) =
           (resp 200 (CustomerList
              (filter (\<lambda>c. customer_id c \<noteq> i) (filter (owned uid) (customers d)))), d')"
proof -
  have "delete_customer d uid cid = (r, d')"
    using assms(2,5) by simp
  moreover have "distinct (map customer_id (customers d))"
    using assms(1) by (simp add: wf_db_def)
  ultimately have "customers d' = filter (\<lambda>c. \<not> target i uid c) (customers d)"
    using delete_customer_distinct [of d cid i uid] assms(4) by simp
  with assms(3) show ?thesis
    by (simp add: get_readCustomer_def filter_owned_delete del: filter_filter)
qed

theorem delete_then_read_witness:
  "handle demo_cfg 11 demo_salt
     (snd (handle demo_cfg 10 demo_salt demo_db
        (DeleteCustomer (Some (bearer_prefix @ demo_token 0 0)) (oid_hex 2))))
     (ReadCustomer (Some (bearer_prefix @ demo_token 0 0))) =
   (resp 200 (CustomerList []),
    snd (handle demo_cfg 10 demo_salt demo_db
        (DeleteCustomer (Some (bearer_prefix @ demo_token 0 0)) (oid_hex 2))))"
proof -
  have v: "verifyToken (cfg_mac demo_cfg) (cfg_secret demo_cfg) n
             (Some (bearer_prefix @ demo_token 0 0)) = Inr 0" if "n < 3600" for n
    using that by (intro demo_verify) (simp add: token_lifetime_def)
  have wf: "wf_db demo_db"
    by (simp add: wf_db_def demo_db_def)
  obtain r d' where h: "handle demo_cfg 10 demo_salt demo_db
      (DeleteCustomer (Some (bearer_prefix @ demo_token 0 0)) (oid_hex 2)) = (r, d')"
    by (cases "handle demo_cfg 10 demo_salt demo_db
      (DeleteCustomer (Some (bearer_prefix @ demo_token 0 0)) (oid_hex 2))")
  have c: "cast_oid (oid_hex 2) = Inr 2" by simp
  from delete_then_read [OF wf v v c h, of 11 demo_salt] h show ?thesis
    by (simp add: demo_db_def owned_def)
qed

subsection \<open>Validation and error paths\<close>

text \<open>
  C13. \<open>POST /api/Customer\<close> with an empty \<open>name\<close> or \<open>membershipType\<close> fails the
  schema's \<open>required\<close> validator on save; the \<open>catch\<close> answers 500 "Server Error"
  (not the 4xx validation error of the spec) and nothing is stored.
\<close>

theorem create_missing_field_500:
  assumes "verifyToken (cfg_mac cfg) (cfg_secret cfg) now hdr = Inr uid"
    and "nm = [] \<or> mt = []"
  shows "handle cfg now salt d (PostCustomer hdr nm mt) = (server_error, d)"
  using assms post_customer_invalid by simp

theorem create_missing_field_500_witness:
  "handle demo_cfg 10 demo_salt demo_db (PostCustomer (Some (bearer_prefix @ demo_token 0 0)) [] ''Gold'') =
     (server_error, demo_db)"
proof -
  have v: "verifyToken (cfg_mac demo_cfg) (cfg_secret demo_cfg) 10
             (Some (bearer_prefix @ demo_token 0 0)) = Inr 0"
    by (rule demo_verify) (simp add: token_lifetime_def)
  show ?thesis by (rule create_missing_field_500 [OF v]) simp
qed

text \<open>
  C14. \<open>PUT /api/Customer/:id\<close> runs no validator (\<open>findOneAndUpdate\<close> without
  \<open>runValidators\<close>): the server can reach a state in which a stored record has an
  empty name, which \<open>POST\<close> would have refused. Any configuration whose MAC is
  base64url reaches one, by register, create and update.
\<close>

theorem update_skips_validation:
  assumes "mac_base64url (cfg_mac cfg)"
  shows "\<exists>d. reachable cfg d \<and> list_ex (\<lambda>c. name c = []) (customers d)"
proof -
  let ?h = "Some (bearer_prefix @ jwt_sign (cfg_mac cfg) (cfg_secret cfg) 0 0)"
  have v: "verifyToken (cfg_mac cfg) (cfg_secret cfg) 0 ?h = Inr 0"
    using verifyToken_bearer_sign [OF assms] by (simp add: token_lifetime_def)
  have s: "length demo_salt = 22" by (simp add: demo_salt_def)
  define d1 where "d1 = snd (handle cfg 0 demo_salt init_db (Register ''a'' ''p''))"
  define d2 where "d2 = snd (handle cfg 0 demo_salt d1 (PostCustomer ?h ''x'' ''y''))"
  define d3 where "d3 = snd (handle cfg 0 demo_salt d2 (PutCustomer ?h (oid_hex 1) [] ''y''))"
  have r3: "reachable cfg d3"
    unfolding d3_def d2_def d1_def
    by (intro reachable_handle reachable.init s)
  have "customers d1 = [] \<and> next_oid d1 = 1"
    by (simp add: d1_def register_fresh init_db_def)
  then have "customers d2 = [\<lparr>customer_id = 1, name = ''x'', membershipType = ''y'', user = 0\<rparr>]"
    using v by (simp add: d2_def post_customer_ok)
  then have "customers d3 = [\<lparr>customer_id = 1, name = [], membershipType = ''y'', user = 0\<rparr>]"
    using v by (simp add: d3_def put_customer_def target_def)
  with r3 show ?thesis by auto
qed

theorem update_skips_validation_witness:
  "\<exists>d. reachable demo_cfg d \<and> list_ex (\<lambda>c. name c = []) (customers d)"
  by (rule update_skips_validation [OF demo_mac_ok])

text \<open>
  The claim C15 is \<open>Session.verifyToken_raw_sign\<close>; here it is applied to a token of
  the demo configuration sent without its \<open>Bearer \<close> prefix.
\<close>

theorem verifyToken_raw_sign_witness:
  "verifyToken (cfg_mac demo_cfg) (cfg_secret demo_cfg) 10 (Some (demo_token 0 0)) = Inr 0"
  using verifyToken_raw_sign [OF demo_mac_ok, of "cfg_secret demo_cfg" 10 0 0]
  by (simp add: demo_token_def token_lifetime_def)

text \<open>
  C16. Only the first 72 bytes of a password count (bcrypt): after registering with
  password \<open>pw\<close>, a login with any \<open>pw'\<close> that agrees with \<open>pw\<close> on its first 72
  bytes succeeds, even when the two differ after that.
\<close>

theorem password_truncation:
  assumes "\<not> list_ex (\<lambda>u. username u = un) (users d)" and "un \<noteq> []"
    and "length salt = 22"
    and "handle cfg t0 salt d (Register un pw) = (r, d')"
    and "take 72 pw' = take 72 pw"
  shows "handle cfg now salt' d' (Login un pw') =
           (resp 200 (TokenBody (jwt_sign (cfg_mac cfg) (cfg_secret cfg) now (next_oid d))), d')"
proof -
  have "register (cfg_kdf cfg) salt d un pw = (r, d')"
    using assms(4) by simp
  from login_after_register [OF assms(1,2,3) this] assms(5) show ?thesis by simp
qed

theorem password_truncation_witness:
  "handle demo_cfg 20 demo_salt
     (snd (handle demo_cfg 10 demo_salt demo_db (Register ''carol'' (replicate 72 CHR ''a'' @ ''x''))))
     (Login ''carol'' (replicate 72 CHR ''a'' @ ''y'')) =
   (resp 200 (TokenBody (jwt_sign (cfg_mac demo_cfg) (cfg_secret demo_cfg) 20 3)),
    snd (handle demo_cfg 10 demo_salt demo_db (Register ''carol'' (replicate 72 CHR ''a'' @ ''x''))))"
proof -
  obtain r d' where h: "handle demo_cfg 10 demo_salt demo_db
      (Register ''carol'' (replicate 72 CHR ''a'' @ ''x'')) = (r, d')"
    by (cases "handle demo_cfg 10 demo_salt demo_db (Register ''carol'' (replicate 72 CHR ''a'' @ ''x''))")
  have "\<not> list_ex (\<lambda>u. username u = ''carol'') (users demo_db)" and "length demo_salt = 22"
    by (simp_all add: demo_db_def demo_salt_def)
  from password_truncation [OF this(1) _ this(2) h, of "replicate 72 CHR ''a'' @ ''y''" 20 demo_salt] h
  show ?thesis by (simp add: demo_db_def)
qed

text \<open>
  C17. The default secret: when \<open>JWT_SECRET\<close> is unset, the server signs and checks
  with the string \<open>'your_jwt_secret_key'\<close> written in the source, so anyone can mint a
  token for any user id and read that user's records.
\<close>

theorem default_secret_forgery:
  assumes "mac_base64url (cfg_mac cfg)" and "cfg_secret cfg = JWT_SECRET None"
    and "now < t + token_lifetime"
  shows "handle cfg now salt d
           (ReadCustomer (Some (bearer_prefix @ jwt_sign (cfg_mac cfg) ''your_jwt_secret_key'' t uid))) =
         (resp 200 (CustomerList (filter (owned uid) (customers d))), d)"
proof -
  have "cfg_secret cfg = ''your_jwt_secret_key''"
    using assms(2) by (simp add: JWT_SECRET_def default_jwt_secret_def)
  with verifyToken_bearer_sign [OF assms(1)] assms(3) show ?thesis
    by (simp add: get_readCustomer_def)
qed

theorem default_secret_forgery_witness:
  "handle demo_cfg 10 demo_salt demo_db
     (ReadCustomer (Some (bearer_prefix @ jwt_sign (cfg_mac demo_cfg) ''your_jwt_secret_key'' 0 0))) =
   (resp 200 (CustomerList [\<lparr>customer_id = 2, name = ''Bob'', membershipType = ''Gold'', user = 0\<rparr>]),
    demo_db)"
  using default_secret_forgery [OF demo_mac_ok, of 10 0 demo_salt demo_db 0]
  by (simp add: demo_cfg_def token_lifetime_def demo_db_def owned_def)

text \<open>
  C18. Login tells an unknown username from a wrong password: both are 401, but the
  message for an unknown user is "Invaild Credentials" (sic) and for a wrong password
  "Invalid Credentials", so a caller can enumerate usernames.
\<close>

theorem login_distinguishes_unknown_user:
  assumes "\<not> list_ex (\<lambda>u. username u = un1) (users d)"
    and "find (\<lambda>u. username u = un2) (users d) = Some u"
    and "\<not> bcrypt_compare (cfg_kdf cfg) pw2 (password u)"
  shows "handle cfg now salt d (Login un1 pw1) = (resp 401 (Message ''Invaild Credentials''), d) \<and>
         handle cfg now salt d (Login un2 pw2) = (resp 401 (Message ''Invalid Credentials''), d) \<and>
         body (fst (handle cfg now salt d (Login un1 pw1))) \<noteq>
         body (fst (handle cfg now salt d (Login un2 pw2)))"
  using login_unknown [OF assms(1)] login_known [OF assms(2)] assms(3) by simp

theorem login_distinguishes_unknown_user_witness:
  "handle demo_cfg 10 demo_salt demo_db (Login ''mallory'' ''x'') =
     (resp 401 (Message ''Invaild Credentials''), demo_db) \<and>
   handle demo_cfg 10 demo_salt demo_db (Login ''alice'' ''wrong'') =
     (resp 401 (Message ''Invalid Credentials''), demo_db) \<and>
   body (fst (handle demo_cfg 10 demo_salt demo_db (Login ''mallory'' ''x''))) \<noteq>
   body (fst (handle demo_cfg 10 demo_salt demo_db (Login ''alice'' ''wrong'')))"
proof -
  have f: "find (\<lambda>u. username u = ''alice'') (users demo_db) =
             Some \<lparr>user_id = 0, username = ''alice'', password = bcrypt_hash (\<lambda>s p. p) demo_salt ''pw1''\<rparr>"
    by (simp add: demo_db_def)
  have n: "\<not> list_ex (\<lambda>u. username u = ''mallory'') (users demo_db)"
    by (simp add: demo_db_def)
  have c: "\<not> bcrypt_compare (cfg_kdf demo_cfg) ''wrong''
             (password \<lparr>user_id = 0, username = ''alice'', password = bcrypt_hash (\<lambda>s p. p) demo_salt ''pw1''\<rparr>)"
    by (simp add: bcrypt_compare_hash demo_salt_def demo_cfg_def)
  from login_distinguishes_unknown_user [OF n f c] show ?thesis .
qed

text \<open>
  C19. A path \<open>:id\<close> that is not an ObjectId makes \<open>findOneAndUpdate\<close> and
  \<open>findOneAndDelete\<close> throw a CastError: both routes answer 500 "Server Error" and
  change nothing.
\<close>

theorem malformed_id_500:
  assumes "verifyToken (cfg_mac cfg) (cfg_secret cfg) now hdr = Inr uid"
    and "cast_oid cid = Inl e"
  shows "handle cfg now salt d (PutCustomer hdr cid nm mt) = (server_error, d) \<and>
         handle cfg now salt d (DeleteCustomer hdr cid) = (server_error, d)"
  using assms put_customer_cast_error delete_customer_cast_error by simp

theorem malformed_id_500_witness:
  "handle demo_cfg 10 demo_salt demo_db (PutCustomer (Some (bearer_prefix @ demo_token 0 0)) ''abc'' ''x'' ''y'') =
     (server_error, demo_db) \<and>
   handle demo_cfg 10 demo_salt demo_db (DeleteCustomer (Some (bearer_prefix @ demo_token 0 0)) ''abc'') =
     (server_error, demo_db)"
proof -
  have v: "verifyToken (cfg_mac demo_cfg) (cfg_secret demo_cfg) 10
             (Some (bearer_prefix @ demo_token 0 0)) = Inr 0"
    by (rule demo_verify) (simp add: token_lifetime_def)
  have c: "cast_oid ''abc'' = Inl CastError"
    by (simp add: cast_oid_def valid_oid_string_def)
  from malformed_id_500 [OF v c] show ?thesis .
qed

subsection \<open>The scenario of the spec\<close>

text \<open>
  C20. The scenario of the spec, for any two distinct non-empty usernames, any passwords
  and any non-empty record, run request by request from an empty database: both
  registrations answer 201 and both logins return a token for the user's id; the first
  user's read lists the new record; the second user's read is empty; the second user's
  delete of the first user's record reports success but deletes nothing; the first user's
  last read still lists the record; the final database holds the two users and the record.
\<close>

theorem spec_scenario_run:
  assumes "mac_base64url (cfg_mac cfg)" and "length salt = 22"
    and "a \<noteq> []" and "b \<noteq> []" and "a \<noteq> b" and "nm \<noteq> []" and "mt \<noteq> []"
  shows "run cfg init_db (spec_scenario cfg salt a pa b pb nm mt) =
     ([resp 201 (Message ''User Registered Successfully''),
       resp 200 (TokenBody (jwt_sign (cfg_mac cfg) (cfg_secret cfg) 1 0)),
       resp 201 (Message ''Customer Added Successfully''),
       resp 200 (CustomerList [\<lparr>customer_id = 1, name = nm, membershipType = mt, user = 0\<rparr>]),
       resp 201 (Message ''User Registered Successfully''),
       resp 200 (TokenBody (jwt_sign (cfg_mac cfg) (cfg_secret cfg) 5 2)),
       resp 200 (CustomerList []),
       resp 200 (Message ''Customer Deleted Successfully''),
       resp 200 (CustomerList [\<lparr>customer_id = 1, name = nm, membershipType = mt, user = 0\<rparr>])],
      \<lparr>users = [\<lparr>user_id = 0, username = a, password = bcrypt_hash (cfg_kdf cfg) salt pa\<rparr>,
                \<lparr>user_id = 2, username = b, password = bcrypt_hash (cfg_kdf cfg) salt pb\<rparr>],
       customers = [\<lparr>customer_id = 1, name = nm, membershipType = mt, user = 0\<rparr>],
       next_oid = 3\<rparr>)"
proof -
  have c: "cast_oid (oid_hex (Suc 0)) = Inr (Suc 0)" by simp
  have v: "verifyToken (cfg_mac cfg) (cfg_secret cfg) now (Some (bearer_prefix @ jwt_sign (cfg_mac cfg) (cfg_secret cfg) t uid)) =
           (if t + token_lifetime \<le> now then Inl (resp 401 (Text ''Invalid Token'')) else Inr uid)" for now t uid
    by (rule verifyToken_bearer_sign [OF assms(1)])
  have ba: "b \<noteq> a" using assms(5) by simp
  show ?thesis
    using assms(3-7) ba
    by (simp add: spec_scenario_def Let_def init_db_def v token_lifetime_def register_def
        login_def save_user_def required_ok_def bcrypt_compare_hash assms(2) post_customer_ok
        get_readCustomer_def owned_def delete_customer_def target_def c numeral_2_eq_2)
qed


theorem spec_scenario_run_witness:
  "run demo_cfg init_db (spec_scenario demo_cfg demo_salt ''alice'' ''pw1'' ''bob'' ''pw2'' ''Bob'' ''Gold'') =
     ([resp 201 (Message ''User Registered Successfully''),
       resp 200 (TokenBody (demo_token 1 0)),
       resp 201 (Message ''Customer Added Successfully''),
       resp 200 (CustomerList [\<lparr>customer_id = 1, name = ''Bob'', membershipType = ''Gold'', user = 0\<rparr>]),
       resp 201 (Message ''User Registered Successfully''),
       resp 200 (TokenBody (demo_token 5 2)),
       resp 200 (CustomerList []),
       resp 200 (Message ''Customer Deleted Successfully''),
       resp 200 (CustomerList [\<lparr>customer_id = 1, name = ''Bob'', membershipType = ''Gold'', user = 0\<rparr>])],
      \<lparr>users = [\<lparr>user_id = 0, username = ''alice'', password = bcrypt_hash (\<lambda>s p. p) demo_salt ''pw1''\<rparr>,
                \<lparr>user_id = 2, username = ''bob'', password = bcrypt_hash (\<lambda>s p. p) demo_salt ''pw2''\<rparr>],
       customers = [\<lparr>customer_id = 1, name = ''Bob'', membershipType = ''Gold'', user = 0\<rparr>],
       next_oid = 3\<rparr>)"
  using spec_scenario_run [OF demo_mac_ok demo_salt_len, of "''alice''" "''bob''" "''Bob''" "''Gold''" "''pw1''" "''pw2''"]
  by (simp add: demo_token_def demo_cfg_kdf)


subsection \<open>The front end against the server\<close>

theorem login_then_dashboard_witness:
  "login_run demo_cfg demo_salt demo_db login_init
     [(0, SetUsername ''alice''), (0, SetPassword ''pw1''), (0, SubmitLogin)] =
     (demo_db, login_init\<lparr>l_username := ''alice'', l_password := ''pw1''\<rparr>, ToDashboard (JStr (demo_token 0 0))) \<and>
   dash_event demo_cfg 10 demo_salt (JStr (demo_token 0 0)) demo_db dash_init Mount =
     ((demo_db, dash_init\<lparr>dash_customers :=
                 JArray [\<lparr>customer_id = 2, name = ''Bob'', membershipType = ''Gold'', user = 0\<rparr>]\<rparr>), Stay)"
proof -
  have n: "''alice'' \<noteq> []" and p: "''pw1'' \<noteq> []" by simp_all
  have f: "find (\<lambda>u. username u = ''alice'') (users demo_db) =
     Some \<lparr>user_id = 0, username = ''alice'', password = bcrypt_hash (\<lambda>s p. p) demo_salt ''pw1''\<rparr>"
    using demo_alice by simp
  have c: "bcrypt_compare (cfg_kdf demo_cfg) ''pw1''
             (password \<lparr>user_id = 0, username = ''alice'', password = bcrypt_hash (\<lambda>s p. p) demo_salt ''pw1''\<rparr>)"
    by (simp add: demo_cfg_kdf bcrypt_compare_hash demo_salt_len)
  have t: "(10::nat) < 0 + token_lifetime" by (simp add: token_lifetime_def)
  show ?thesis
    using login_then_dashboard [OF demo_mac_ok n p f c t, of demo_salt 0 0]
    by (simp add: demo_token_def demo_db_customers owned_def)
qed

theorem login_failure_message_witness:
  "login_submit demo_cfg 0 demo_salt demo_db (login_init\<lparr>l_username := ''alice'', l_password := ''pw2''\<rparr>) =
     ((login_init\<lparr>l_username := ''alice'', l_password := ''pw2'', l_message := JStr ''Invalid Credentials''\<rparr>,
       Stay), demo_db)"
proof -
  let ?st = "login_init\<lparr>l_username := ''alice'', l_password := ''pw2''\<rparr>"
  have n: "l_username ?st \<noteq> []" and p: "l_password ?st \<noteq> []" by simp_all
  have h: "\<forall>u. find (\<lambda>u. username u = l_username ?st) (users demo_db) = Some u \<longrightarrow>
             \<not> bcrypt_compare (cfg_kdf demo_cfg) (l_password ?st) (password u)"
    using demo_alice by (simp add: demo_cfg_kdf bcrypt_compare_hash demo_salt_len)
  show ?thesis
    using login_failure_message [OF n p h, of 0 demo_salt] by (simp add: demo_db_def)
qed

theorem rejected_session_messages_witness:
  "dash_event demo_cfg 3600 demo_salt (JStr (demo_token 0 0)) demo_db
     (dash_init\<lparr>dash_name := ''Ann'', dash_mt := ''Gold''\<rparr>) Submit =
   ((demo_db, dash_init\<lparr>dash_name := ''Ann'', dash_mt := ''Gold'', dash_message := JStr ''Server Error''\<rparr>),
    Stay)"
proof -
  have v: "verifyToken (cfg_mac demo_cfg) (cfg_secret demo_cfg) 3600 (auth_header (JStr (demo_token 0 0))) =
             Inl (resp 401 (Text ''Invalid Token''))"
    by (simp add: demo_auth token_lifetime_def)
  have e: "Submit = Mount \<or>
           (Submit = Submit \<and> dash_name (dash_init\<lparr>dash_name := ''Ann'', dash_mt := ''Gold''\<rparr>) \<noteq> [] \<and>
            dash_mt (dash_init\<lparr>dash_name := ''Ann'', dash_mt := ''Gold''\<rparr>) \<noteq> []) \<or>
           Submit = Delete JNull"
    by simp
  show ?thesis
    using rejected_session_messages [OF v e, of demo_salt demo_db] by simp
qed

theorem edit_then_submit_witness:
  "dash_customers (snd (fst (dash_event demo_cfg 10 demo_salt (JStr (demo_token 0 0)) demo_db
      ((handleEdit dash_init \<lparr>customer_id = 2, name = ''Bob'', membershipType = ''Gold'', user = 0\<rparr>)
         \<lparr>dash_name := ''Robert'', dash_mt := ''Silver''\<rparr>) Submit))) =
     JArray [\<lparr>customer_id = 2, name = ''Robert'', membershipType = ''Silver'', user = 0\<rparr>] \<and>
   editingId (snd (fst (dash_event demo_cfg 10 demo_salt (JStr (demo_token 0 0)) demo_db
      ((handleEdit dash_init \<lparr>customer_id = 2, name = ''Bob'', membershipType = ''Gold'', user = 0\<rparr>)
         \<lparr>dash_name := ''Robert'', dash_mt := ''Silver''\<rparr>) Submit))) = JNull"
proof -
  have v: "verifyToken (cfg_mac demo_cfg) (cfg_secret demo_cfg) 10 (auth_header (JStr (demo_token 0 0))) = Inr 0"
    by (simp add: demo_auth token_lifetime_def)
  have dist: "distinct (map customer_id (customers demo_db))" by (simp add: demo_db_customers)
  obtain d' st' e where h: "dash_event demo_cfg 10 demo_salt (JStr (demo_token 0 0)) demo_db
      ((handleEdit dash_init \<lparr>customer_id = 2, name = ''Bob'', membershipType = ''Gold'', user = 0\<rparr>)
         \<lparr>dash_name := ''Robert'', dash_mt := ''Silver''\<rparr>) Submit = ((d', st'), e)"
    by (metis prod.exhaust)
  have "dash_customers st' = JArray [\<lparr>customer_id = 2, name = ''Robert'', membershipType = ''Silver'', user = 0\<rparr>] \<and>
        editingId st' = JNull"
    using edit_then_submit [OF v dist _ _ _ h] by (simp add: demo_db_customers owned_def)
  then show ?thesis unfolding h by simp
qed

theorem add_submit_witness:
  "customers (fst (fst (dash_event demo_cfg 10 demo_salt (JStr (demo_token 0 0)) demo_db
      (dash_init\<lparr>dash_name := ''Ann'', dash_mt := ''Gold''\<rparr>) Submit))) =
     [\<lparr>customer_id = 2, name = ''Bob'', membershipType = ''Gold'', user = 0\<rparr>,
      \<lparr>customer_id = 3, name = ''Ann'', membershipType = ''Gold'', user = 0\<rparr>] \<and>
   dash_message (snd (fst (dash_event demo_cfg 10 demo_salt (JStr (demo_token 0 0)) demo_db
      (dash_init\<lparr>dash_name := ''Ann'', dash_mt := ''Gold''\<rparr>) Submit))) = JStr ''Customer Added Successfully''"
proof -
  have v: "verifyToken (cfg_mac demo_cfg) (cfg_secret demo_cfg) 10 (auth_header (JStr (demo_token 0 0))) = Inr 0"
    by (simp add: demo_auth token_lifetime_def)
  have m: "\<not> truthy (editingId (dash_init\<lparr>dash_name := ''Ann'', dash_mt := ''Gold''\<rparr>))"
    by (simp add: dash_init_def)
  obtain d' st' e where h: "dash_event demo_cfg 10 demo_salt (JStr (demo_token 0 0)) demo_db
      (dash_init\<lparr>dash_name := ''Ann'', dash_mt := ''Gold''\<rparr>) Submit = ((d', st'), e)"
    by (metis prod.exhaust)
  have "customers d' = [\<lparr>customer_id = 2, name = ''Bob'', membershipType = ''Gold'', user = 0\<rparr>,
          \<lparr>customer_id = 3, name = ''Ann'', membershipType = ''Gold'', user = 0\<rparr>] \<and>
        dash_message st' = JStr ''Customer Added Successfully''"
    using add_submit [OF v m h] by (simp add: demo_db_def)
  then show ?thesis unfolding h by simp
qed

subsection \<open>The dashboard under the event loop\<close>

text \<open>
  The schedule of the stale list: the list request of mounting is answered, alice adds
  Ann/Gold, the add is answered and its refresh answered and delivered, and only then does
  the first answer, from before the add, arrive.
\<close>

lemma demo_read:
  "handle demo_cfg now demo_salt d (ReadCustomer (auth_header (JStr (demo_token 0 0)))) =
     (if now < token_lifetime then (resp 200 (CustomerList (filter (owned 0) (customers d))), d)
      else (resp 401 (Text ''Invalid Token''), d))"
  by (simp add: demo_auth authenticated_def get_readCustomer_def)

lemma stale_run:
  "(astep demo_cfg (JStr (demo_token 0 0)))\<^sup>*\<^sup>* (ainit (JStr (demo_token 0 0)) demo_db)
     \<lparr>adb = demo_db\<lparr>customers := customers demo_db @ [\<lparr>customer_id = 3, name = ''Ann'', membershipType = ''Gold'', user = 0\<rparr>],
                     next_oid := 4\<rparr>,
      adash = dash_init\<lparr>dash_message := JStr ''Customer Added Successfully'',
                        dash_customers := JArray (customers demo_db)\<rparr>,
      inflight = {#}, amounted = True\<rparr>"
proof -
  let ?T = "JStr (demo_token 0 0)"
  let ?r1 = "resp 200 (CustomerList (customers demo_db))"
  let ?st3 = "dash_init\<lparr>dash_name := ''Ann'', dash_mt := ''Gold''\<rparr>"
  let ?add = "PostCustomer (auth_header ?T) ''Ann'' ''Gold''"
  let ?d2 = "demo_db\<lparr>customers := customers demo_db @ [\<lparr>customer_id = 3, name = ''Ann'', membershipType = ''Gold'', user = 0\<rparr>],
                     next_oid := 4\<rparr>"
  let ?r2 = "resp 201 (Message ''Customer Added Successfully'')"
  let ?st6 = "dash_init\<lparr>dash_message := JStr ''Customer Added Successfully''\<rparr>"
  let ?r3 = "resp 200 (CustomerList (customers ?d2))"
  have r1: "handle demo_cfg 10 demo_salt demo_db (ReadCustomer (auth_header ?T)) = (?r1, demo_db)"
    by (simp add: demo_read token_lifetime_def demo_db_def owned_def del: handle.simps)
  have r2: "handle demo_cfg 11 demo_salt demo_db ?add = (?r2, ?d2)"
    by (simp add: demo_auth token_lifetime_def authenticated_def post_customer_ok demo_db_def)
  have r3: "handle demo_cfg 12 demo_salt ?d2 (ReadCustomer (auth_header ?T)) = (?r3, ?d2)"
    by (simp add: demo_read token_lifetime_def demo_db_def owned_def del: handle.simps)
  have s1: "astep demo_cfg ?T (ainit ?T demo_db)
      \<lparr>adb = demo_db, adash = dash_init, inflight = {#Resp KFetch (Some ?r1)#}, amounted = True\<rparr>"
    using astep.serve [where s = "ainit ?T demo_db" and k = KFetch and rq = "ReadCustomer (auth_header ?T)"
        and salt = demo_salt and now = 10 and r = ?r1 and d' = demo_db and cfg = demo_cfg and tok = ?T]
      demo_salt_len r1
    by (simp add: ainit_def fetch_req_def del: handle.simps)
  have s2: "astep demo_cfg ?T
      \<lparr>adb = demo_db, adash = dash_init, inflight = {#Resp KFetch (Some ?r1)#}, amounted = True\<rparr>
      \<lparr>adb = demo_db, adash = dash_init\<lparr>dash_name := ''Ann''\<rparr>, inflight = {#Resp KFetch (Some ?r1)#}, amounted = True\<rparr>"
    using astep.event [where s = "\<lparr>adb = demo_db, adash = dash_init, inflight = {#Resp KFetch (Some ?r1)#}, amounted = True\<rparr>"
        and ev = "TypeName ''Ann''"] by simp
  have s3: "astep demo_cfg ?T
      \<lparr>adb = demo_db, adash = dash_init\<lparr>dash_name := ''Ann''\<rparr>, inflight = {#Resp KFetch (Some ?r1)#}, amounted = True\<rparr>
      \<lparr>adb = demo_db, adash = ?st3, inflight = {#Resp KFetch (Some ?r1)#}, amounted = True\<rparr>"
    using astep.event [where s = "\<lparr>adb = demo_db, adash = dash_init\<lparr>dash_name := ''Ann''\<rparr>, inflight = {#Resp KFetch (Some ?r1)#}, amounted = True\<rparr>"
        and ev = "TypeMt ''Gold''"] by simp
  have s4: "astep demo_cfg ?T
      \<lparr>adb = demo_db, adash = ?st3, inflight = {#Resp KFetch (Some ?r1)#}, amounted = True\<rparr>
      \<lparr>adb = demo_db, adash = ?st3, inflight = {#Resp KFetch (Some ?r1), Req KAdd ?add#}, amounted = True\<rparr>"
    using astep.event [where s = "\<lparr>adb = demo_db, adash = ?st3, inflight = {#Resp KFetch (Some ?r1)#}, amounted = True\<rparr>"
        and ev = Submit] by (simp add: dash_init_def)
  have s5: "astep demo_cfg ?T
      \<lparr>adb = demo_db, adash = ?st3, inflight = {#Resp KFetch (Some ?r1), Req KAdd ?add#}, amounted = True\<rparr>
      \<lparr>adb = ?d2, adash = ?st3, inflight = {#Resp KFetch (Some ?r1), Resp KAdd (Some ?r2)#}, amounted = True\<rparr>"
    using astep.serve [where s = "\<lparr>adb = demo_db, adash = ?st3, inflight = {#Resp KFetch (Some ?r1), Req KAdd ?add#}, amounted = True\<rparr>"
        and k = KAdd and rq = ?add and salt = demo_salt and now = 11 and r = ?r2 and d' = ?d2 and cfg = demo_cfg and tok = ?T]
      demo_salt_len r2
    by (simp add: add_mset_commute del: handle.simps)
  have s6: "astep demo_cfg ?T
      \<lparr>adb = ?d2, adash = ?st3, inflight = {#Resp KFetch (Some ?r1), Resp KAdd (Some ?r2)#}, amounted = True\<rparr>
      \<lparr>adb = ?d2, adash = ?st6, inflight = {#Resp KFetch (Some ?r1), fetch_req ?T#}, amounted = True\<rparr>"
    using astep.deliver [where s = "\<lparr>adb = ?d2, adash = ?st3, inflight = {#Resp KFetch (Some ?r1), Resp KAdd (Some ?r2)#}, amounted = True\<rparr>"
        and k = KAdd and res = "Some ?r2"]
    by (simp add: handleAdd_response_def json_of_body_def response_ok_def refresh_def dash_init_def add_mset_commute)
  have s7: "astep demo_cfg ?T
      \<lparr>adb = ?d2, adash = ?st6, inflight = {#Resp KFetch (Some ?r1), fetch_req ?T#}, amounted = True\<rparr>
      \<lparr>adb = ?d2, adash = ?st6, inflight = {#Resp KFetch (Some ?r1), Resp KFetch (Some ?r3)#}, amounted = True\<rparr>"
    using astep.serve [where s = "\<lparr>adb = ?d2, adash = ?st6, inflight = {#Resp KFetch (Some ?r1), fetch_req ?T#}, amounted = True\<rparr>"
        and k = KFetch and rq = "ReadCustomer (auth_header ?T)" and salt = demo_salt and now = 12
        and r = ?r3 and d' = ?d2 and cfg = demo_cfg and tok = ?T]
      demo_salt_len r3
    by (simp add: fetch_req_def add_mset_commute del: handle.simps)
  have s8: "astep demo_cfg ?T
      \<lparr>adb = ?d2, adash = ?st6, inflight = {#Resp KFetch (Some ?r1), Resp KFetch (Some ?r3)#}, amounted = True\<rparr>
      \<lparr>adb = ?d2, adash = ?st6\<lparr>dash_customers := JArray (customers ?d2)\<rparr>, inflight = {#Resp KFetch (Some ?r1)#}, amounted = True\<rparr>"
    using astep.deliver [where s = "\<lparr>adb = ?d2, adash = ?st6, inflight = {#Resp KFetch (Some ?r1), Resp KFetch (Some ?r3)#}, amounted = True\<rparr>"
        and k = KFetch and res = "Some ?r3"]
    by (simp add: fetchCustomers_response_def json_of_body_def response_ok_def add_mset_commute)
  have s9: "astep demo_cfg ?T
      \<lparr>adb = ?d2, adash = ?st6\<lparr>dash_customers := JArray (customers ?d2)\<rparr>, inflight = {#Resp KFetch (Some ?r1)#}, amounted = True\<rparr>
      \<lparr>adb = ?d2, adash = ?st6\<lparr>dash_customers := JArray (customers demo_db)\<rparr>, inflight = {#}, amounted = True\<rparr>"
    using astep.deliver [where s = "\<lparr>adb = ?d2, adash = ?st6\<lparr>dash_customers := JArray (customers ?d2)\<rparr>, inflight = {#Resp KFetch (Some ?r1)#}, amounted = True\<rparr>"
        and k = KFetch and res = "Some ?r1"]
    by (simp add: fetchCustomers_response_def json_of_body_def response_ok_def add_mset_commute)
  from s1 s2 s3 s4 s5 s6 s7 s8 s9 show ?thesis
    by (meson converse_rtranclp_into_rtranclp r_into_rtranclp)
qed

text \<open>
  C5. The dashboard's list can end up stale: \<open>fetchCustomers\<close> stores whichever answer
  arrives last, not the newest, so an answer from before an add that arrives after the
  refresh the add started puts the old list back. A schedule exists after which nothing is
  in flight, the dashboard is still mounted and reports the add, and the list on screen
  differs from the user's records on the server; no later response repairs it.
\<close>

theorem stale_list_overwrite:
  "\<exists>s. (astep demo_cfg (JStr (demo_token 0 0)))\<^sup>*\<^sup>* (ainit (JStr (demo_token 0 0)) demo_db) s \<and>
       inflight s = {#} \<and> amounted s \<and>
       dash_message (adash s) = JStr ''Customer Added Successfully'' \<and>
       dash_customers (adash s) \<noteq> JArray (filter (owned 0) (customers (adb s)))"
proof -
  let ?s = "\<lparr>adb = demo_db\<lparr>customers := customers demo_db @ [\<lparr>customer_id = 3, name = ''Ann'', membershipType = ''Gold'', user = 0\<rparr>],
                         next_oid := 4\<rparr>,
          adash = dash_init\<lparr>dash_message := JStr ''Customer Added Successfully'',
                            dash_customers := JArray (customers demo_db)\<rparr>,
          inflight = {#}, amounted = True\<rparr>"
  have "(astep demo_cfg (JStr (demo_token 0 0)))\<^sup>*\<^sup>* (ainit (JStr (demo_token 0 0)) demo_db) ?s"
    by (rule stale_run)
  moreover have "dash_customers (adash ?s) \<noteq> JArray (filter (owned 0) (customers (adb ?s)))"
    by (simp add: demo_db_def owned_def)
  ultimately show ?thesis by (intro exI [of _ ?s]) simp
qed

theorem async_shows_own_records_witness:
  "renders_list (dash_customers (adash \<lparr>adb = demo_db\<lparr>customers := customers demo_db @ [\<lparr>customer_id = 3, name = ''Ann'', membershipType = ''Gold'', user = 0\<rparr>],
                         next_oid := 4\<rparr>,
          adash = dash_init\<lparr>dash_message := JStr ''Customer Added Successfully'',
                            dash_customers := JArray (customers demo_db)\<rparr>,
          inflight = {#}, amounted = True\<rparr>)) \<and>
   displays_only 0 (dash_customers (adash \<lparr>adb = demo_db\<lparr>customers := customers demo_db @ [\<lparr>customer_id = 3, name = ''Ann'', membershipType = ''Gold'', user = 0\<rparr>],
                         next_oid := 4\<rparr>,
          adash = dash_init\<lparr>dash_message := JStr ''Customer Added Successfully'',
                            dash_customers := JArray (customers demo_db)\<rparr>,
          inflight = {#}, amounted = True\<rparr>))"
proof -
  have "\<forall>now u. verifyToken (cfg_mac demo_cfg) (cfg_secret demo_cfg) now (auth_header (JStr (demo_token 0 0))) =
                 Inr u \<longrightarrow> u = 0"
    by (simp add: demo_auth)
  from async_shows_own_records [OF this stale_run] show ?thesis .
qed

end
